theory Spec2Isabelle
  imports
    Complex_Main
    "HOL-Library.Multiset"
    "HOL-Library.Char_ord"
    "HOL-Library.List_Lexorder"
    "HOL-Library.Product_Lexorder"
begin

section \<open>The price table of \<open>dashboard_app.py\<close>\<close>

text \<open>
  The dashboard reads one table, \<open>sipsa_master.csv\<close>, with the columns
  \<open>fecha\<close>, \<open>grupo\<close>, \<open>producto\<close>, \<open>codigo_cpc_ac\<close>, \<open>mercado\<close> and
  \<open>precio_promedio_por_kilogramo\<close> (the docstring of \<open>load_data\<close>).

  \<open>load_data\<close> works on whatever frame the reader delivers: any header, any cells.
  It is modelled on a frame with a list of column names and rows of cells
  (section \<open>load_data\<close>). \<open>main\<close> works on the six columns by name; its frames are
  lists of rows, a row being a record of the six columns, polymorphic in the types
  of \<open>fecha\<close> (\<open>'f\<close>), of the text columns (\<open>'t\<close>) and of the price (\<open>'p\<close>).

  A date is an integer that grows with time (a day number, or the digits
  \<open>yyyymmdd\<close>): the program only compares dates.

  Two readings of a float are used. \<open>float64\<close> has the values of an IEEE double
  that the program can tell apart: NaN, the two infinities and the finite numbers
  (the sign of zero is not kept); the result of an operation on finite numbers goes
  through a rounding function, which is a parameter. It is used for \<open>load_data\<close> and
  for the variation of lines 177 to 179, whose claims depend on these values.
  \<open>pyfloat\<close> is NaN or a finite number, with exact arithmetic: the reading used for
  the means, the time series and the ranking, whose claims are about which rows are
  aggregated and in which order the results come. \<open>variacion_pct\<close> is line 178 in
  this second reading, as the scenario of the spec uses it; \<open>variacion\<close> is the same
  line on \<open>float64\<close> values, and lemma \<open>variacion_exact\<close> relates the two.
\<close>

type_synonym date = int

datatype pyfloat = NaN | Num real

datatype float64 = FNaN | NegInf | Fin real | PosInf

record ('f, 't, 'p) fila =
  fecha :: 'f
  grupo :: 't
  producto :: 't
  codigo_cpc_ac :: "string option"
  mercado :: 't
  precio_promedio_por_kilogramo :: 'p

text \<open>
  \<open>observation\<close>: a row of \<open>main\<close> with a finite price. \<open>observation64\<close>: a row of
  \<open>main\<close> with any \<open>float64\<close> price that \<open>load_data\<close> lets through (an infinite price
  is not null, so \<open>dropna\<close> keeps it).
\<close>

type_synonym observation = "(date, string, real) fila"
type_synonym observation64 = "(date, string, float64) fila"

section \<open>\<open>load_data\<close>\<close>

subsection \<open>Frames\<close>

text \<open>
  A Python \<open>str\<close> is a list of Unicode code points; \<open>ustr\<close> gives the code points of
  an ASCII literal. A cell is null (\<open>NaN\<close>, \<open>None\<close> or \<open>NaT\<close>), a text, a float or a
  timestamp. The frame is what \<open>pd.read_csv(path, parse_dates=["fecha"])\<close> returns
  (line 27): by the reader's contract, the column \<open>fecha\<close> holds timestamps, and null
  for a missing date, when every date of the file can be parsed, and is returned
  unaltered, as text, when some date cannot. When the file has no column named
  exactly \<open>fecha\<close> the reader raises, and \<open>load_data\<close> with it: the model begins with
  a frame that was read.
\<close>

type_synonym ustring = "nat list"

definition ustr :: "string \<Rightarrow> ustring" where
  "ustr s = map of_char s"

datatype cell = Null | Text ustring | Number float64 | Timestamp date

record frame =
  columns :: "ustring list"
  rows :: "cell list list"

text \<open>
  The routines of Python and pandas that \<open>load_data\<close> calls and whose code is not
  part of the program are parameters, collected in one record:
  \<^item> \<open>lib_isspace\<close>, \<open>lib_islower\<close>: \<open>str.isspace\<close> and \<open>str.islower\<close> of one character;
  \<^item> \<open>lib_toupper\<close>: the uppercase mapping of one character, which may be several
    characters (\<open>str.upper\<close> maps character by character);
  \<^item> \<open>lib_lower\<close>: \<open>str.lower\<close> of a whole string (it depends on the context of a
    character);
  \<^item> \<open>lib_str_number\<close>, \<open>lib_str_timestamp\<close>: \<open>str\<close> of a float and of a timestamp;
  \<^item> \<open>lib_parse_number\<close>: the number that \<open>pd.to_numeric\<close> reads in a text, if any;
  \<^item> \<open>lib_number_of_timestamp\<close>: the number \<open>pd.to_numeric\<close> gives for a timestamp.
\<close>

record lib =
  lib_isspace :: "nat \<Rightarrow> bool"
  lib_islower :: "nat \<Rightarrow> bool"
  lib_toupper :: "nat \<Rightarrow> ustring"
  lib_lower :: "ustring \<Rightarrow> ustring"
  lib_str_number :: "float64 \<Rightarrow> ustring"
  lib_str_timestamp :: "date \<Rightarrow> ustring"
  lib_parse_number :: "ustring \<Rightarrow> float64 option"
  lib_number_of_timestamp :: "date \<Rightarrow> float64"

subsection \<open>Lines 35 to 41: the column names\<close>

text \<open>
  \<open>str.strip()\<close> removes the leading and the trailing whitespace characters;
  \<open>str.replace(old, new)\<close> is written for a one-character \<open>old\<close>, as the source
  uses it (42 is the asterisk, 32 the blank, 95 the underscore).
\<close>

definition strip :: "lib \<Rightarrow> ustring \<Rightarrow> ustring" where
  "strip py s = rev (dropWhile (lib_isspace py) (rev (dropWhile (lib_isspace py) s)))"

definition replace :: "nat \<Rightarrow> ustring \<Rightarrow> ustring \<Rightarrow> ustring" where
  "replace old new s = concat (map (\<lambda>c. if c = old then new else [c]) s)"

definition normalize_column :: "lib \<Rightarrow> ustring \<Rightarrow> ustring" where
  "normalize_column py name =
     replace 42 [] (replace 32 [95] (lib_lower py (strip py name)))"

subsection \<open>Lines 43 to 45: the text columns\<close>

text \<open>
  \<open>cell_at\<close> reads a cell of a row; \<open>positions\<close> gives the places where a name
  occurs among the column names. \<open>df[col]\<close> is a series when the name occurs once
  and a frame when it occurs several times; a frame has no \<open>.str\<close>, so line 45 then
  raises \<open>AttributeError\<close>. \<open>astype(str)\<close> turns a null cell into the text \<open>nan\<close>
  (pandas 1 and 2).
\<close>

definition upper :: "lib \<Rightarrow> ustring \<Rightarrow> ustring" where
  "upper py s = concat (map (lib_toupper py) s)"

definition cell_at :: "cell list \<Rightarrow> nat \<Rightarrow> cell" where
  "cell_at r i = (if i < length r then r ! i else Null)"

definition positions :: "ustring \<Rightarrow> ustring list \<Rightarrow> nat list" where
  "positions col cols = filter (\<lambda>i. cols ! i = col) [0..<length cols]"

definition astype_str :: "lib \<Rightarrow> cell \<Rightarrow> ustring" where
  "astype_str py c =
     (case c of
        Null \<Rightarrow> ustr ''nan''
      | Text s \<Rightarrow> s
      | Number x \<Rightarrow> lib_str_number py x
      | Timestamp d \<Rightarrow> lib_str_timestamp py d)"

definition normalize_text :: "lib \<Rightarrow> cell \<Rightarrow> cell" where
  "normalize_text py c = Text (upper py (strip py (astype_str py c)))"

datatype load_error = AttributeError | TypeError

definition normalize_text_column :: "lib \<Rightarrow> ustring \<Rightarrow> frame \<Rightarrow> load_error + frame" where
  "normalize_text_column py col df =
     (case positions col (columns df) of
        [] \<Rightarrow> Inr df
      | [i] \<Rightarrow> Inr (df\<lparr>rows := map (\<lambda>r. r[i := normalize_text py (cell_at r i)]) (rows df)\<rparr>)
      | _ \<Rightarrow> Inl AttributeError)"

subsection \<open>Lines 47 to 51: the price column\<close>

text \<open>
  \<open>pd.to_numeric(..., errors="coerce")\<close>: a cell that is null or that is no number
  becomes NaN and nothing is raised; a text such as \<open>inf\<close> is a number. Given a frame
  (the name occurs several times) \<open>to_numeric\<close> raises \<open>TypeError\<close>.
\<close>

definition to_numeric :: "lib \<Rightarrow> cell \<Rightarrow> float64" where
  "to_numeric py c =
     (case c of
        Null \<Rightarrow> FNaN
      | Text s \<Rightarrow> (case lib_parse_number py s of None \<Rightarrow> FNaN | Some x \<Rightarrow> x)
      | Number x \<Rightarrow> x
      | Timestamp d \<Rightarrow> lib_number_of_timestamp py d)"

definition col_precio :: ustring where
  "col_precio = ustr ''precio_promedio_por_kilogramo''"

definition col_fecha :: ustring where
  "col_fecha = ustr ''fecha''"

definition to_numeric_column :: "lib \<Rightarrow> frame \<Rightarrow> load_error + frame" where
  "to_numeric_column py df =
     (case positions col_precio (columns df) of
        [] \<Rightarrow> Inr df
      | [j] \<Rightarrow> Inr (df\<lparr>rows := map (\<lambda>r. r[j := Number (to_numeric py (cell_at r j))]) (rows df)\<rparr>)
      | _ \<Rightarrow> Inl TypeError)"

subsection \<open>Lines 53 to 57: rows without date or price\<close>

text \<open>
  \<open>df.dropna(subset=["fecha", "precio_promedio_por_kilogramo"])\<close> drops the rows with
  a null cell in a column of one of the two names. A text is not null, whatever it
  says.
\<close>

definition isna :: "cell \<Rightarrow> bool" where
  "isna c = (c = Null \<or> c = Number FNaN)"

definition dropna :: "frame \<Rightarrow> frame" where
  "dropna df =
     df\<lparr>rows :=
          filter (\<lambda>r. list_all (\<lambda>k. \<not> isna (cell_at r k))
                        (positions col_fecha (columns df) @ positions col_precio (columns df)))
            (rows df)\<rparr>"

text \<open>
  \<open>load_data\<close>: the file is \<open>None\<close> when neither path exists, and then the result is
  \<open>None\<close> (line 32). The chosen path is not modelled.
\<close>

definition load_data :: "lib \<Rightarrow> frame option \<Rightarrow> load_error + frame option" where
  "load_data py file =
     (case file of
        None \<Rightarrow> Inr None
      | Some f \<Rightarrow>
          (case normalize_text_column py (ustr ''grupo'')
                  (f\<lparr>columns := map (normalize_column py) (columns f)\<rparr>) of
             Inl e \<Rightarrow> Inl e
           | Inr d1 \<Rightarrow>
          (case normalize_text_column py (ustr ''producto'') d1 of
             Inl e \<Rightarrow> Inl e
           | Inr d2 \<Rightarrow>
          (case normalize_text_column py (ustr ''mercado'') d2 of
             Inl e \<Rightarrow> Inl e
           | Inr d3 \<Rightarrow>
          (case to_numeric_column py d3 of
             Inl e \<Rightarrow> Inl e
           | Inr d4 \<Rightarrow>
               Inr (Some (if col_fecha \<in> set (columns d4) \<and> col_precio \<in> set (columns d4)
                          then dropna d4 else d4)))))))"

section \<open>The filters of \<open>main\<close>\<close>

text \<open>
  The values the widgets return are parameters: \<open>start_date\<close> and \<open>end_date\<close> (the
  slider), \<open>producto_sel\<close> (the select box; \<open>None\<close> when there is no option) and
  \<open>mercados_sel\<close> (the multiselect, a list of options).

  \<open>unique\<close> is \<open>Series.unique()\<close>: the distinct values in the order of their first
  appearance. Python's \<open>sorted\<close> on strings compares code points lexicographically,
  which is the order of \<open>sort\<close> on \<open>string\<close> here. \<open>dropna()\<close> before \<open>unique()\<close>
  changes nothing: \<open>astype(str)\<close> left no null in a text column.
\<close>

definition unique :: "'a list \<Rightarrow> 'a list" where
  "unique xs = rev (remdups (rev xs))"

text \<open>Lines 112 to 115.\<close>

definition df_periodo :: "observation list \<Rightarrow> date \<Rightarrow> date \<Rightarrow> observation list" where
  "df_periodo df start_date end_date =
     filter (\<lambda>ob. start_date \<le> fecha ob \<and> fecha ob \<le> end_date) df"

text \<open>Line 118.\<close>

definition productos :: "observation list \<Rightarrow> string list" where
  "productos dper = sort (unique (map producto dper))"

text \<open>Line 126.\<close>

definition df_producto :: "observation list \<Rightarrow> string option \<Rightarrow> observation list" where
  "df_producto dper producto_sel = filter (\<lambda>ob. Some (producto ob) = producto_sel) dper"

text \<open>Lines 129 to 134.\<close>

definition mercados_disponibles :: "observation list \<Rightarrow> string list" where
  "mercados_disponibles dprod = sort (unique (map mercado dprod))"

definition mercados_default :: "string list \<Rightarrow> string list" where
  "mercados_default disponibles =
     (if length disponibles \<le> 5 then disponibles else take 5 disponibles)"

text \<open>Lines 143 and 144: the market filter is applied only to a non-empty selection.\<close>

definition filter_mercados :: "observation list \<Rightarrow> string list \<Rightarrow> observation list" where
  "filter_mercados dprod mercados_sel =
     (if mercados_sel \<noteq> []
      then filter (\<lambda>ob. mercado ob \<in> set mercados_sel) dprod
      else dprod)"

text \<open>
  Lines 112 to 152 together: the filtered frame, or \<open>None\<close> when it is empty and
  \<open>main\<close> stops with a warning.
\<close>

definition filtered_view ::
  "observation list \<Rightarrow> date \<Rightarrow> date \<Rightarrow> string option \<Rightarrow> string list \<Rightarrow> observation list option" where
  "filtered_view df start_date end_date producto_sel mercados_sel =
     (let v = filter_mercados (df_producto (df_periodo df start_date end_date) producto_sel)
                mercados_sel
      in if v = [] then None else Some v)"

section \<open>The indicators\<close>

text \<open>
  Line 159: \<open>df_producto.sort_values("fecha")\<close>. The default sort of pandas is not
  stable, so the order of rows of one date is not fixed: the sorted frame is any
  rearrangement of the rows whose dates ascend.
\<close>

definition sort_values_fecha :: "observation list \<Rightarrow> observation list \<Rightarrow> bool" where
  "sort_values_fecha df sorted_df = (mset sorted_df = mset df \<and> sorted (map fecha sorted_df))"

text \<open>Lines 162 and 163: \<open>min()\<close> and \<open>max()\<close> of a column; \<open>None\<close> is \<open>NaT\<close>.\<close>

definition primer_fecha :: "observation list \<Rightarrow> date option" where
  "primer_fecha s = (case s of [] \<Rightarrow> None | ob # rest \<Rightarrow> Some (fold min (map fecha rest) (fecha ob)))"

definition ultima_fecha :: "observation list \<Rightarrow> date option" where
  "ultima_fecha s = (case s of [] \<Rightarrow> None | ob # rest \<Rightarrow> Some (fold max (map fecha rest) (fecha ob)))"

text \<open>\<open>Series.mean()\<close> of a column without nulls: NaN on no rows.\<close>

definition mean :: "real list \<Rightarrow> pyfloat" where
  "mean xs = (if xs = [] then NaN else Num (sum_list xs / real (length xs)))"

text \<open>Lines 165 to 175. A comparison with \<open>NaT\<close> is false for every row.\<close>

definition precio_inicial :: "observation list \<Rightarrow> pyfloat" where
  "precio_inicial s =
     mean (map precio_promedio_por_kilogramo (filter (\<lambda>ob. Some (fecha ob) = primer_fecha s) s))"

definition precio_final :: "observation list \<Rightarrow> pyfloat" where
  "precio_final s =
     mean (map precio_promedio_por_kilogramo (filter (\<lambda>ob. Some (fecha ob) = ultima_fecha s) s))"

text \<open>
  Lines 177 to 179. The outer \<open>None\<close> is Python's \<open>None\<close>; \<open>NaN > 0\<close> is false.
\<close>

definition variacion_pct :: "observation list \<Rightarrow> pyfloat option" where
  "variacion_pct s =
     (case precio_inicial s of
        NaN \<Rightarrow> None
      | Num i \<Rightarrow>
          if i > 0
          then Some (case precio_final s of NaN \<Rightarrow> NaN | Num f \<Rightarrow> Num ((f / i - 1) * 100))
          else None)"

text \<open>Line 181.\<close>

definition precio_prom_periodo :: "observation list \<Rightarrow> pyfloat" where
  "precio_prom_periodo s = mean (map precio_promedio_por_kilogramo s)"

section \<open>The time series\<close>

text \<open>
  \<open>groupby(key)[price].mean()\<close>: one entry per distinct key, the keys ascending (the
  default \<open>sort=True\<close>), each with the mean of the prices of its rows.
\<close>

definition groupby_mean :: "(observation \<Rightarrow> 'k::linorder) \<Rightarrow> observation list \<Rightarrow> ('k \<times> pyfloat) list" where
  "groupby_mean key s =
     map (\<lambda>k. (k, mean (map precio_promedio_por_kilogramo (filter (\<lambda>ob. key ob = k) s))))
       (sort (unique (map key s)))"

text \<open>Lines 218 to 224.\<close>

definition serie :: "observation list \<Rightarrow> ((date \<times> string) \<times> pyfloat) list" where
  "serie s = groupby_mean (\<lambda>ob. (fecha ob, mercado ob)) s"

text \<open>
  Lines 227 to 231: \<open>pivot\<close> raises \<open>ValueError\<close> when an (index, column) pair occurs
  twice; otherwise the index and the columns are the distinct dates and markets,
  ascending, and a pair without an entry is NaN.
\<close>

datatype error = ValueError

record pivot_table =
  p_index :: "date list"
  p_columns :: "string list"
  p_values :: "pyfloat list list"

definition pivot :: "((date \<times> string) \<times> pyfloat) list \<Rightarrow> error + pivot_table" where
  "pivot ser =
     (if \<not> distinct (map fst ser) then Inl ValueError
      else
        (let idx = sort (unique (map (fst \<circ> fst) ser));
             cols = sort (unique (map (snd \<circ> fst) ser))
         in Inr \<lparr> p_index = idx, p_columns = cols,
                  p_values =
                    map (\<lambda>d. map (\<lambda>m. case map_of ser (d, m) of None \<Rightarrow> NaN | Some v \<Rightarrow> v) cols)
                      idx \<rparr>))"

section \<open>The ranking of markets\<close>

text \<open>
  Lines 247 to 253: \<open>groupby("mercado")[price].mean().sort_values(ascending=False)\<close>.
  \<open>sort_values\<close> puts NaN last in either direction. Its default algorithm is not
  stable, so the order of equal means is not fixed: a sorted series is any
  rearrangement of the entries whose values descend (or ascend).
\<close>

definition ge_nan_last :: "pyfloat \<Rightarrow> pyfloat \<Rightarrow> bool" where
  "ge_nan_last a b =
     (case b of NaN \<Rightarrow> True | Num y \<Rightarrow> (case a of NaN \<Rightarrow> False | Num x \<Rightarrow> y \<le> x))"

definition le_nan_last :: "pyfloat \<Rightarrow> pyfloat \<Rightarrow> bool" where
  "le_nan_last a b =
     (case b of NaN \<Rightarrow> True | Num y \<Rightarrow> (case a of NaN \<Rightarrow> False | Num x \<Rightarrow> x \<le> y))"

definition sort_values_desc :: "(string \<times> pyfloat) list \<Rightarrow> (string \<times> pyfloat) list \<Rightarrow> bool" where
  "sort_values_desc xs r =
     (mset r = mset xs \<and> sorted_wrt (\<lambda>a b. ge_nan_last (snd a) (snd b)) r)"

definition sort_values_asc :: "(string \<times> pyfloat) list \<Rightarrow> (string \<times> pyfloat) list \<Rightarrow> bool" where
  "sort_values_asc xs r =
     (mset r = mset xs \<and> sorted_wrt (\<lambda>a b. le_nan_last (snd a) (snd b)) r)"

definition ranking_mercados :: "observation list \<Rightarrow> (string \<times> pyfloat) list \<Rightarrow> bool" where
  "ranking_mercados s r = sort_values_desc (groupby_mean mercado s) r"

text \<open>Line 255.\<close>

definition top_n :: "(string \<times> pyfloat) list \<Rightarrow> nat" where
  "top_n r = (if length r > 10 then 10 else length r)"

text \<open>\<open>Series.head(n)\<close> and \<open>Series.tail(n)\<close> for \<open>n \<ge> 0\<close>.\<close>

definition head :: "nat \<Rightarrow> 'a list \<Rightarrow> 'a list" where
  "head n r = take n r"

definition tail :: "nat \<Rightarrow> 'a list \<Rightarrow> 'a list" where
  "tail n r = (if n = 0 then [] else drop (length r - n) r)"

text \<open>Lines 261 and 265: the two bar charts.\<close>

definition mas_caros :: "(string \<times> pyfloat) list \<Rightarrow> (string \<times> pyfloat) list" where
  "mas_caros r = head (top_n r) r"

definition mas_baratos :: "(string \<times> pyfloat) list \<Rightarrow> (string \<times> pyfloat) list \<Rightarrow> bool" where
  "mas_baratos r b = sort_values_asc (tail (top_n r) r) b"

section \<open>The variation on \<open>float64\<close> values\<close>

text \<open>
  The arithmetic of IEEE doubles on the values of \<open>float64\<close>. \<open>rnd\<close> rounds the exact
  result of an operation on two finite numbers; it may overflow to an infinity.
  Zero stands for the positive zero.
\<close>

definition gt_zero :: "float64 \<Rightarrow> bool" where
  "gt_zero a = (case a of PosInf \<Rightarrow> True | Fin x \<Rightarrow> 0 < x | _ \<Rightarrow> False)"

definition negative :: "float64 \<Rightarrow> bool" where
  "negative a = (case a of NegInf \<Rightarrow> True | Fin x \<Rightarrow> x < 0 | _ \<Rightarrow> False)"

definition fneg :: "float64 \<Rightarrow> float64" where
  "fneg a = (case a of FNaN \<Rightarrow> FNaN | NegInf \<Rightarrow> PosInf | Fin x \<Rightarrow> Fin (- x) | PosInf \<Rightarrow> NegInf)"

definition fadd :: "(real \<Rightarrow> float64) \<Rightarrow> float64 \<Rightarrow> float64 \<Rightarrow> float64" where
  "fadd rnd a b =
     (case (a, b) of
        (FNaN, _) \<Rightarrow> FNaN
      | (_, FNaN) \<Rightarrow> FNaN
      | (PosInf, NegInf) \<Rightarrow> FNaN
      | (NegInf, PosInf) \<Rightarrow> FNaN
      | (PosInf, _) \<Rightarrow> PosInf
      | (NegInf, _) \<Rightarrow> NegInf
      | (Fin x, PosInf) \<Rightarrow> PosInf
      | (Fin x, NegInf) \<Rightarrow> NegInf
      | (Fin x, Fin y) \<Rightarrow> rnd (x + y))"

definition fsub :: "(real \<Rightarrow> float64) \<Rightarrow> float64 \<Rightarrow> float64 \<Rightarrow> float64" where
  "fsub rnd a b = fadd rnd a (fneg b)"

definition fmul :: "(real \<Rightarrow> float64) \<Rightarrow> float64 \<Rightarrow> float64 \<Rightarrow> float64" where
  "fmul rnd a b =
     (case (a, b) of
        (FNaN, _) \<Rightarrow> FNaN
      | (_, FNaN) \<Rightarrow> FNaN
      | (Fin x, Fin y) \<Rightarrow> rnd (x * y)
      | (Fin x, _) \<Rightarrow> (if x = 0 then FNaN else if negative a = negative b then PosInf else NegInf)
      | (_, Fin y) \<Rightarrow> (if y = 0 then FNaN else if negative a = negative b then PosInf else NegInf)
      | (_, _) \<Rightarrow> (if negative a = negative b then PosInf else NegInf))"

definition fdiv :: "(real \<Rightarrow> float64) \<Rightarrow> float64 \<Rightarrow> float64 \<Rightarrow> float64" where
  "fdiv rnd a b =
     (case (a, b) of
        (FNaN, _) \<Rightarrow> FNaN
      | (_, FNaN) \<Rightarrow> FNaN
      | (Fin x, Fin y) \<Rightarrow>
          (if y \<noteq> 0 then rnd (x / y)
           else if x = 0 then FNaN else if 0 < x then PosInf else NegInf)
      | (Fin x, _) \<Rightarrow> Fin 0
      | (_, Fin y) \<Rightarrow> (if negative a = negative b then PosInf else NegInf)
      | (_, _) \<Rightarrow> FNaN)"

text \<open>
  Lines 159 to 179 on a frame with \<open>float64\<close> prices. \<open>Series.mean()\<close> belongs to
  pandas and is a parameter, \<open>mean64\<close>: whatever float it computes from the prices
  of the selected rows.
\<close>

definition primer_fecha64 :: "observation64 list \<Rightarrow> date option" where
  "primer_fecha64 s = (case s of [] \<Rightarrow> None | ob # rest \<Rightarrow> Some (fold min (map fecha rest) (fecha ob)))"

definition ultima_fecha64 :: "observation64 list \<Rightarrow> date option" where
  "ultima_fecha64 s = (case s of [] \<Rightarrow> None | ob # rest \<Rightarrow> Some (fold max (map fecha rest) (fecha ob)))"

definition precio_inicial64 :: "(float64 list \<Rightarrow> float64) \<Rightarrow> observation64 list \<Rightarrow> float64" where
  "precio_inicial64 mean64 s =
     mean64 (map precio_promedio_por_kilogramo (filter (\<lambda>ob. Some (fecha ob) = primer_fecha64 s) s))"

definition precio_final64 :: "(float64 list \<Rightarrow> float64) \<Rightarrow> observation64 list \<Rightarrow> float64" where
  "precio_final64 mean64 s =
     mean64 (map precio_promedio_por_kilogramo (filter (\<lambda>ob. Some (fecha ob) = ultima_fecha64 s) s))"

text \<open>
  Lines 177 to 179: \<open>(precio_final / precio_inicial - 1) * 100 if precio_inicial > 0
  else None\<close>. \<open>NaN > 0\<close> is false.
\<close>

definition variacion :: "(real \<Rightarrow> float64) \<Rightarrow> float64 \<Rightarrow> float64 \<Rightarrow> float64 option" where
  "variacion rnd p_final p_inicial =
     (if gt_zero p_inicial
      then Some (fmul rnd (fsub rnd (fdiv rnd p_final p_inicial) (Fin 1)) (Fin 100))
      else None)"

definition variacion_pct64 ::
  "(real \<Rightarrow> float64) \<Rightarrow> (float64 list \<Rightarrow> float64) \<Rightarrow> observation64 list \<Rightarrow> float64 option" where
  "variacion_pct64 rnd mean64 s =
     variacion rnd (precio_final64 mean64 s) (precio_inicial64 mean64 s)"

section \<open>Notions used in the statements\<close>

text \<open>
  The arithmetic mean of the prices of the rows of \<open>v\<close> whose key is \<open>k\<close>, as a number.
\<close>

definition group_mean :: "(observation \<Rightarrow> 'k) \<Rightarrow> observation list \<Rightarrow> 'k \<Rightarrow> real" where
  "group_mean key v k =
     sum_list (map precio_promedio_por_kilogramo (filter (\<lambda>ob. key ob = k) v))
       / real (length (filter (\<lambda>ob. key ob = k) v))"

text \<open>
  The number a float holds, used to read the values of a series that has no NaN.
\<close>

definition num_or_zero :: "pyfloat \<Rightarrow> real" where
  "num_or_zero a = (case a of NaN \<Rightarrow> 0 | Num x \<Rightarrow> x)"

text \<open>
  Keys by which the library sort orders a series like \<open>sort_values\<close>: the numbers
  descending or ascending, NaN after every number.
\<close>

definition desc_key :: "string \<times> pyfloat \<Rightarrow> nat \<times> real" where
  "desc_key p = (case snd p of NaN \<Rightarrow> (1, 0) | Num x \<Rightarrow> (0, - x))"

definition asc_key :: "string \<times> pyfloat \<Rightarrow> nat \<times> real" where
  "asc_key p = (case snd p of NaN \<Rightarrow> (1, 0) | Num x \<Rightarrow> (0, x))"

text \<open>
  A frame is rectangular when every row has one cell per column.
\<close>

definition wf_frame :: "frame \<Rightarrow> bool" where
  "wf_frame f = list_all (\<lambda>r. length r = length (columns f)) (rows f)"

text \<open>
  A text without surrounding whitespace, and the asterisks of a text.
\<close>

definition trimmed :: "lib \<Rightarrow> ustring \<Rightarrow> bool" where
  "trimmed py t = (t = [] \<or> (\<not> lib_isspace py (hd t) \<and> \<not> lib_isspace py (last t)))"

definition stars :: "ustring \<Rightarrow> ustring" where
  "stars t = filter (\<lambda>c. c = 42) t"

text \<open>
  Facts about the character tables of Python that the statements about text rely
  on. They hold for every code point in CPython 3.11: the uppercase mapping of a
  character that is not whitespace is not empty and neither begins nor ends with
  whitespace; the characters of an uppercase mapping are their own uppercase
  mapping; the asterisk is not whitespace, is its own uppercase mapping and occurs
  in no other.
\<close>

definition lib_ok :: "lib \<Rightarrow> bool" where
  "lib_ok py =
     ((\<forall>c. \<not> lib_isspace py c \<longrightarrow>
           lib_toupper py c \<noteq> [] \<and> \<not> lib_isspace py (hd (lib_toupper py c)) \<and>
           \<not> lib_isspace py (last (lib_toupper py c))) \<and>
      (\<forall>c. \<forall>u\<in>set (lib_toupper py c). lib_toupper py u = [u]) \<and>
      \<not> lib_isspace py 42 \<and> lib_toupper py 42 = [42] \<and>
      (\<forall>c. 42 \<in> set (lib_toupper py c) \<longrightarrow> c = 42))"

text \<open>
  What \<open>load_data\<close> does to one row, given the normalised column names \<open>C\<close>: the
  cell of a text column that occurs once is normalised, the cell of the price column
  that occurs once is coerced. \<open>admitted\<close> is the admission of a row as the spec
  words it, read on the cells of the frame: no date cell is null and the price is not
  NaN after coercion. \<open>duplicated\<close>: the name occurs more than once.
\<close>

definition text_columns :: "ustring list" where
  "text_columns = [ustr ''grupo'', ustr ''producto'', ustr ''mercado'']"

definition text_upd :: "lib \<Rightarrow> ustring list \<Rightarrow> ustring \<Rightarrow> cell list \<Rightarrow> cell list" where
  "text_upd py C col r =
     (case positions col C of [i] \<Rightarrow> r[i := normalize_text py (cell_at r i)] | _ \<Rightarrow> r)"

definition num_upd :: "lib \<Rightarrow> ustring list \<Rightarrow> cell list \<Rightarrow> cell list" where
  "num_upd py C r =
     (case positions col_precio C of [j] \<Rightarrow> r[j := Number (to_numeric py (cell_at r j))] | _ \<Rightarrow> r)"

definition load_row :: "lib \<Rightarrow> ustring list \<Rightarrow> cell list \<Rightarrow> cell list" where
  "load_row py C r =
     num_upd py C (text_upd py C (ustr ''mercado'')
       (text_upd py C (ustr ''producto'') (text_upd py C (ustr ''grupo'') r)))"


definition duplicated :: "ustring \<Rightarrow> ustring list \<Rightarrow> bool" where
  "duplicated col C = (1 < length (positions col C))"

text \<open>
  A \<open>pyfloat\<close> as a \<open>float64\<close>.
\<close>

definition to64 :: "pyfloat \<Rightarrow> float64" where
  "to64 a = (case a of NaN \<Rightarrow> FNaN | Num x \<Rightarrow> Fin x)"

section \<open>Example inputs\<close>

text \<open>
  For the examples, the routines of the library on the characters the examples
  use: the whitespace of ASCII and of Latin-1; the lowercase letters \<open>a\<close> to \<open>z\<close>, the
  sharp s (223), a-acute (225) and kra (312) with their uppercase mappings (the
  sharp s becomes \<open>SS\<close>, the kra has none but itself); numbers
  written in decimal digits and \<open>inf\<close>. \<open>str\<close> of a float and of a timestamp is not
  used by the examples and is a placeholder.
\<close>

definition sample_parse_number :: "ustring \<Rightarrow> float64 option" where
  "sample_parse_number s =
     (if s = ustr ''inf'' then Some PosInf
      else if s \<noteq> [] \<and> list_all (\<lambda>c. 48 \<le> c \<and> c \<le> 57) s
      then Some (Fin (real_of_int (foldl (\<lambda>a c. 10 * a + (int c - 48)) 0 s)))
      else None)"

definition sample_lib :: lib where
  "sample_lib =
     \<lparr> lib_isspace = (\<lambda>c. c \<in> set [9, 10, 11, 12, 13, 28, 29, 30, 31, 32, 133, 160]),
       lib_islower = (\<lambda>c. (97 \<le> c \<and> c \<le> 122) \<or> c \<in> set [223, 225, 312]),
       lib_toupper = (\<lambda>c. if 97 \<le> c \<and> c \<le> 122 then [c - 32]
                          else if c = 225 then [193]
                          else if c = 223 then [83, 83]
                          else [c]),
       lib_lower = map (\<lambda>c. if 65 \<le> c \<and> c \<le> 90 then c + 32 else if c = 193 then 225 else c),
       lib_str_number = (\<lambda>x. ustr ''?''),
       lib_str_timestamp = (\<lambda>d. ustr ''?''),
       lib_parse_number = sample_parse_number,
       lib_number_of_timestamp = (\<lambda>d. Fin (real_of_int d)) \<rparr>"

text \<open>
  A file with an irregular header. Its first row has an asterisk in the product and
  a no-break space (160) before the market; the second has no date; the price of the
  third is no number; the fourth has a kra in the product and the price \<open>inf\<close>.
  \<open>loaded_example\<close> is what \<open>load_data\<close> makes of it.
\<close>

definition raw_example :: frame where
  "raw_example =
     \<lparr> columns = [ustr ''fecha'', ustr '' Producto*'', ustr ''Mercado'', ustr ''Precio promedio por kilogramo*''],
       rows = [[Timestamp 20230101, Text (ustr ''Arroz*''), Text ([160] @ ustr ''Bogot'' @ [225, 32]), Text (ustr ''1500'')],
               [Null, Text (ustr ''Arroz''), Text (ustr ''Cali''), Text (ustr ''1500'')],
               [Timestamp 20230102, Text (ustr ''Arroz''), Null, Text (ustr ''n/d'')],
               [Timestamp 20230103, Text (ustr ''k'' @ [312]), Text (ustr ''Cali''), Text (ustr ''inf'')]] \<rparr>"

definition loaded_example :: frame where
  "loaded_example =
     \<lparr> columns = [ustr ''fecha'', ustr ''producto'', ustr ''mercado'',
                  ustr ''precio_promedio_por_kilogramo''],
       rows = [[Timestamp 20230101, Text (ustr ''ARROZ*''), Text (ustr ''BOGOT'' @ [193]),
                Number (Fin 1500)],
               [Timestamp 20230103, Text (ustr ''K'' @ [312]), Text (ustr ''CALI''),
                Number PosInf]] \<rparr>"



text \<open>
  The spec's scenario: three observations of one product in the markets A and B.
  \<open>obs\<close> builds an observation from its date, market, product and price.
\<close>

definition obs :: "date \<Rightarrow> string \<Rightarrow> string \<Rightarrow> real \<Rightarrow> observation" where
  "obs d m p x = \<lparr> fecha = d, grupo = ''GRANOS'', producto = p, codigo_cpc_ac = None,
                   mercado = m, precio_promedio_por_kilogramo = x \<rparr>"

definition rice_dataset :: "observation list" where
  "rice_dataset = [obs 20230101 ''A'' ''RICE'' 1000, obs 20230101 ''B'' ''RICE'' 2000,
                   obs 20230201 ''A'' ''RICE'' 1500]"

text \<open>
  A view with six markets, not in alphabetical order.
\<close>

definition six_markets_view :: "observation list" where
  "six_markets_view =
     [obs 20230101 ''NEIVA'' ''RICE'' 1600, obs 20230101 ''BOGOTA'' ''RICE'' 1200,
      obs 20230101 ''CALI'' ''RICE'' 1100, obs 20230101 ''PASTO'' ''RICE'' 1500,
      obs 20230101 ''IBAGUE'' ''RICE'' 1400, obs 20230101 ''ARMENIA'' ''RICE'' 1300,
      obs 20230201 ''CALI'' ''RICE'' 1150]"

text \<open>
  A view in which market A has no observation on the second date and market B has
  the price zero on the first; \<open>gaps_sorted\<close> is one way to sort it by date.
\<close>

definition gaps_view :: "observation list" where
  "gaps_view =
     [obs 20230201 ''B'' ''RICE'' 1500, obs 20230101 ''A'' ''RICE'' 1000,
      obs 20230101 ''A'' ''RICE'' 2000, obs 20230101 ''B'' ''RICE'' 0]"

definition gaps_sorted :: "observation list" where
  "gaps_sorted =
     [obs 20230101 ''A'' ''RICE'' 1000, obs 20230101 ''B'' ''RICE'' 0,
      obs 20230101 ''A'' ''RICE'' 2000, obs 20230201 ''B'' ''RICE'' 1500]"

text \<open>
  For the examples on \<open>float64\<close>: a rounding that is exact up to \<open>2 ^ 1024\<close> and
  overflows beyond, and a mean that skips NaN and adds from left to right.
\<close>

definition round_overflow :: "real \<Rightarrow> float64" where
  "round_overflow x =
     (if x > 2 ^ 1024 then PosInf else if x < - (2 ^ 1024) then NegInf else Fin x)"

definition mean_left :: "float64 list \<Rightarrow> float64" where
  "mean_left xs =
     (let ys = filter (\<lambda>x. x \<noteq> FNaN) xs
      in if ys = [] then FNaN
         else fdiv round_overflow (foldl (fadd round_overflow) (Fin 0) ys) (Fin (real (length ys))))"

text \<open>
  The scenario with \<open>float64\<close> prices; a view whose first price is zero; a view of a
  single date; a view of a single date with an infinite price.
\<close>

definition obs64 :: "date \<Rightarrow> string \<Rightarrow> string \<Rightarrow> float64 \<Rightarrow> observation64" where
  "obs64 d m p x = \<lparr> fecha = d, grupo = ''GRANOS'', producto = p, codigo_cpc_ac = None,
                     mercado = m, precio_promedio_por_kilogramo = x \<rparr>"

definition rice64 :: "observation64 list" where
  "rice64 = [obs64 20230101 ''A'' ''RICE'' (Fin 1000), obs64 20230101 ''B'' ''RICE'' (Fin 2000),
             obs64 20230201 ''A'' ''RICE'' (Fin 1500)]"

definition zero_price_view :: "observation64 list" where
  "zero_price_view = [obs64 20230101 ''A'' ''RICE'' (Fin 0), obs64 20230201 ''A'' ''RICE'' (Fin 1500)]"

definition one_day_view :: "observation64 list" where
  "one_day_view = [obs64 20230101 ''A'' ''RICE'' (Fin 1000), obs64 20230101 ''B'' ''RICE'' (Fin 2000)]"

definition infinite_view :: "observation64 list" where
  "infinite_view = [obs64 20230101 ''A'' ''RICE'' PosInf, obs64 20230101 ''B'' ''RICE'' (Fin 2000)]"

section \<open>Properties of \<open>load_data\<close>\<close>

subsection \<open>The steps\<close>

lemma positions_iff: "k \<in> set (positions col C) \<longleftrightarrow> k < length C \<and> C ! k = col"
  by (auto simp: positions_def)

lemma positions_mem: "col \<in> set C \<longleftrightarrow> positions col C \<noteq> []"
  by (auto simp: positions_def filter_empty_conv in_set_conv_nth)

lemma positions_single: "positions col C = [i] \<Longrightarrow> i < length C \<and> C ! i = col"
  using positions_iff[of i col C] by simp

lemma positions_single_eq:
  assumes "\<not> duplicated col C" and "k < length C" and "C ! k = col"
  shows "positions col C = [k]"
proof -
  have k: "k \<in> set (positions col C)" using assms(2,3) by (simp add: positions_iff)
  have "length (positions col C) \<le> 1" using assms(1) by (simp add: duplicated_def)
  then show ?thesis using k by (cases "positions col C") auto
qed

lemma cell_at_update:
  "cell_at (r[i := x]) k = (if k = i \<and> i < length r then x else cell_at r k)"
  by (auto simp: cell_at_def)

lemma normalize_text_column_eq:
  "normalize_text_column py col df =
     (if duplicated col (columns df) then Inl AttributeError
      else Inr (df\<lparr>rows := map (text_upd py (columns df) col) (rows df)\<rparr>))"
proof (cases "positions col (columns df)")
  case Nil
  have "map (text_upd py (columns df) col) (rows df) = rows df"
    by (rule map_idI) (simp add: text_upd_def Nil)
  then show ?thesis using Nil by (simp add: normalize_text_column_def duplicated_def)
next
  case (Cons i rest)
  then show ?thesis
    by (cases rest) (simp_all add: normalize_text_column_def duplicated_def text_upd_def)
qed

lemma to_numeric_column_eq:
  "to_numeric_column py df =
     (if duplicated col_precio (columns df) then Inl TypeError
      else Inr (df\<lparr>rows := map (num_upd py (columns df)) (rows df)\<rparr>))"
proof (cases "positions col_precio (columns df)")
  case Nil
  have "map (num_upd py (columns df)) (rows df) = rows df"
    by (rule map_idI) (simp add: num_upd_def Nil)
  then show ?thesis using Nil by (simp add: to_numeric_column_def duplicated_def)
next
  case (Cons i rest)
  then show ?thesis
    by (cases rest) (simp_all add: to_numeric_column_def duplicated_def num_upd_def)
qed

lemma load_row_fun:
  "load_row py C =
     (\<lambda>r. num_upd py C (text_upd py C (ustr ''mercado'')
       (text_upd py C (ustr ''producto'') (text_upd py C (ustr ''grupo'') r))))"
  by (rule ext) (simp add: load_row_def)

lemma load_data_eq:
  "load_data py (Some f) =
     (let C = map (normalize_column py) (columns f) in
      if duplicated (ustr ''grupo'') C \<or> duplicated (ustr ''producto'') C \<or>
         duplicated (ustr ''mercado'') C
      then Inl AttributeError
      else if duplicated col_precio C then Inl TypeError
      else Inr (Some (f\<lparr> columns := C,
                       rows := (if col_fecha \<in> set C \<and> col_precio \<in> set C
                               then filter (\<lambda>r. list_all (\<lambda>k. \<not> isna (cell_at r k))
                                                  (positions col_fecha C @ positions col_precio C))
                                      (map (load_row py C) (rows f))
                               else map (load_row py C) (rows f)) \<rparr>)))"
  by (simp add: load_data_def normalize_text_column_eq to_numeric_column_eq dropna_def Let_def
      load_row_fun comp_def)

lemma column_names_distinct:
  "distinct [col_fecha, ustr ''grupo'', ustr ''producto'', ustr ''mercado'', col_precio]"
  by code_simp

lemma column_names_neq:
  "col_fecha \<noteq> ustr ''grupo''"
  "col_fecha \<noteq> ustr ''producto''"
  "col_fecha \<noteq> ustr ''mercado''"
  "col_fecha \<noteq> col_precio"
  "ustr ''grupo'' \<noteq> col_fecha"
  "ustr ''grupo'' \<noteq> ustr ''producto''"
  "ustr ''grupo'' \<noteq> ustr ''mercado''"
  "ustr ''grupo'' \<noteq> col_precio"
  "ustr ''producto'' \<noteq> col_fecha"
  "ustr ''producto'' \<noteq> ustr ''grupo''"
  "ustr ''producto'' \<noteq> ustr ''mercado''"
  "ustr ''producto'' \<noteq> col_precio"
  "ustr ''mercado'' \<noteq> col_fecha"
  "ustr ''mercado'' \<noteq> ustr ''grupo''"
  "ustr ''mercado'' \<noteq> ustr ''producto''"
  "ustr ''mercado'' \<noteq> col_precio"
  "col_precio \<noteq> col_fecha"
  "col_precio \<noteq> ustr ''grupo''"
  "col_precio \<noteq> ustr ''producto''"
  "col_precio \<noteq> ustr ''mercado''"
  by (simp_all add: col_fecha_def col_precio_def ustr_def)

lemma positions_other: "C ! i = col \<Longrightarrow> col' \<noteq> col \<Longrightarrow> positions col' C \<noteq> [i]"
  using positions_single[of col' C i] by auto

lemma length_text_upd: "length (text_upd py C col r) = length r"
  by (simp add: text_upd_def split: list.splits)

lemma length_num_upd: "length (num_upd py C r) = length r"
  by (simp add: num_upd_def split: list.splits)

lemma length_load_row: "length (load_row py C r) = length r"
  by (simp add: load_row_def length_text_upd length_num_upd)

lemma cell_at_text_upd:
  "cell_at (text_upd py C col r) k =
     (if positions col C = [k] \<and> k < length r then normalize_text py (cell_at r k)
      else cell_at r k)"
  by (auto simp: text_upd_def cell_at_update split: list.splits)

lemma cell_at_num_upd:
  "cell_at (num_upd py C r) k =
     (if positions col_precio C = [k] \<and> k < length r then Number (to_numeric py (cell_at r k))
      else cell_at r k)"
  by (auto simp: num_upd_def cell_at_update split: list.splits)

lemma cell_at_load_row_text:
  assumes "col \<in> set text_columns" and "\<not> duplicated col C" and "k < length C" and "C ! k = col"
    and "length r = length C"
  shows "cell_at (load_row py C r) k = normalize_text py (cell_at r k)"
proof -
  have p: "positions col C = [k]" using assms(2,3,4) by (rule positions_single_eq)
  have k: "k < length r" using assms(3,5) by simp
  note o = positions_other[OF assms(4)]
  from assms(1) consider "col = ustr ''grupo''" | "col = ustr ''producto''" | "col = ustr ''mercado''"
    by (auto simp: text_columns_def)
  then show ?thesis
  proof cases
    case 1
    have "positions col_precio C \<noteq> [k]" "positions (ustr ''mercado'') C \<noteq> [k]"
      "positions (ustr ''producto'') C \<noteq> [k]"
      by (rule o, simp add: 1 column_names_neq)+
    then show ?thesis using p k unfolding 1
      by (simp add: load_row_def cell_at_num_upd cell_at_text_upd length_text_upd)
  next
    case 2
    have "positions col_precio C \<noteq> [k]" "positions (ustr ''mercado'') C \<noteq> [k]"
      "positions (ustr ''grupo'') C \<noteq> [k]"
      by (rule o, simp add: 2 column_names_neq)+
    then show ?thesis using p k unfolding 2
      by (simp add: load_row_def cell_at_num_upd cell_at_text_upd length_text_upd)
  next
    case 3
    have "positions col_precio C \<noteq> [k]" "positions (ustr ''producto'') C \<noteq> [k]"
      "positions (ustr ''grupo'') C \<noteq> [k]"
      by (rule o, simp add: 3 column_names_neq)+
    then show ?thesis using p k unfolding 3
      by (simp add: load_row_def cell_at_num_upd cell_at_text_upd length_text_upd)
  qed
qed






lemma load_data_Inr:
  assumes "load_data py (Some f) = Inr (Some g)" and "C = map (normalize_column py) (columns f)"
  shows "\<not> duplicated (ustr ''grupo'') C" "\<not> duplicated (ustr ''producto'') C"
    "\<not> duplicated (ustr ''mercado'') C" "\<not> duplicated col_precio C"
    "columns g = C"
    "rows g = (if col_fecha \<in> set C \<and> col_precio \<in> set C
               then filter (\<lambda>r. list_all (\<lambda>k. \<not> isna (cell_at r k))
                                  (positions col_fecha C @ positions col_precio C))
                      (map (load_row py C) (rows f))
               else map (load_row py C) (rows f))"
  using assms by (auto simp: load_data_eq Let_def split: if_splits)


subsection \<open>Text normalisation\<close>

lemma dropWhile_hd: "dropWhile P xs \<noteq> [] \<Longrightarrow> \<not> P (hd (dropWhile P xs))"
  by (simp add: hd_dropWhile)

lemma strip_trimmed: "trimmed py (strip py s)"
proof (cases "strip py s = []")
  case True
  then show ?thesis by (simp add: trimmed_def)
next
  case False
  let ?a = "dropWhile (lib_isspace py) s"
  let ?b = "dropWhile (lib_isspace py) (rev ?a)"
  have b: "?b \<noteq> []" using False by (simp add: strip_def)
  have l: "\<not> lib_isspace py (hd ?b)" using b by (rule dropWhile_hd)
  have e: "last (strip py s) = hd ?b" using b by (simp add: strip_def last_rev)
  have a: "?a \<noteq> []" using b by (cases "?a") simp_all
  have "hd (strip py s) = last ?b" using b by (simp add: strip_def hd_rev)
  moreover have "last ?b = last (rev ?a)" using b
    by (metis last_appendR takeWhile_dropWhile_id)
  moreover have "last (rev ?a) = hd ?a" using a by (simp add: last_rev)
  moreover have "\<not> lib_isspace py (hd ?a)" using a by (rule dropWhile_hd)
  ultimately show ?thesis using l e by (simp add: trimmed_def)
qed

lemma hd_concat_map:
  "xs \<noteq> [] \<Longrightarrow> f (hd xs) \<noteq> [] \<Longrightarrow> hd (concat (map f xs)) = hd (f (hd xs))"
  by (cases xs) simp_all

lemma last_concat_map:
  "xs \<noteq> [] \<Longrightarrow> f (last xs) \<noteq> [] \<Longrightarrow> last (concat (map f xs)) = last (f (last xs))"
  by (cases xs rule: rev_cases) simp_all

lemma upper_trimmed:
  assumes "lib_ok py" and "trimmed py t"
  shows "trimmed py (upper py t)"
proof (cases "t = []")
  case True
  then show ?thesis by (simp add: upper_def trimmed_def)
next
  case False
  with assms(2) have h: "\<not> lib_isspace py (hd t)" and l: "\<not> lib_isspace py (last t)"
    by (simp_all add: trimmed_def)
  from assms(1) h have uh: "lib_toupper py (hd t) \<noteq> []" "\<not> lib_isspace py (hd (lib_toupper py (hd t)))"
    by (simp_all add: lib_ok_def)
  from assms(1) l have ul: "lib_toupper py (last t) \<noteq> []" "\<not> lib_isspace py (last (lib_toupper py (last t)))"
    by (simp_all add: lib_ok_def)
  show ?thesis
    using uh ul False
    by (simp add: trimmed_def upper_def hd_concat_map last_concat_map)
qed

lemma upper_fixed:
  assumes "lib_ok py" and "ch \<in> set (upper py t)"
  shows "lib_toupper py ch = [ch]"
proof -
  from assms(2) obtain c where "ch \<in> set (lib_toupper py c)" by (auto simp: upper_def)
  with assms(1) show ?thesis by (simp add: lib_ok_def)
qed

lemma stars_toupper:
  assumes "lib_ok py"
  shows "stars (lib_toupper py c) = (if c = 42 then [42] else [])"
proof (cases "c = 42")
  case True
  with assms show ?thesis by (simp add: lib_ok_def stars_def)
next
  case False
  with assms have "42 \<notin> set (lib_toupper py c)" by (auto simp: lib_ok_def)
  then have "stars (lib_toupper py c) = []" by (auto simp: stars_def filter_empty_conv)
  with False show ?thesis by simp
qed

lemma stars_append: "stars (a @ b) = stars a @ stars b"
  by (simp add: stars_def)

lemma stars_upper:
  assumes "lib_ok py"
  shows "stars (upper py t) = stars t"
proof (induction t)
  case Nil
  show ?case by (simp add: upper_def)
next
  case (Cons c t)
  have "upper py (c # t) = lib_toupper py c @ upper py t" by (simp add: upper_def)
  then show ?case using Cons stars_toupper[OF assms, of c]
    by (simp add: stars_append) (simp add: stars_def)
qed

lemma stars_dropWhile:
  assumes "\<not> P 42"
  shows "stars (dropWhile P t) = stars t"
  using assms by (induction t) (auto simp: stars_def)

lemma stars_rev: "stars (rev t) = rev (stars t)"
  by (simp add: stars_def rev_filter)

lemma stars_strip:
  assumes "lib_ok py"
  shows "stars (strip py t) = stars t"
proof -
  from assms have "\<not> lib_isspace py 42" by (simp add: lib_ok_def)
  then show ?thesis by (simp add: strip_def stars_rev stars_dropWhile)
qed

lemma replace_removes: "old \<notin> set (replace old [] s)"
  by (induction s) (auto simp: replace_def)

lemma normalize_column_no_star: "42 \<notin> set (normalize_column py name)"
  by (simp add: normalize_column_def replace_removes)

lemma lib_ok_sample: "lib_ok sample_lib"
proof -
  have 1: "\<forall>c. \<not> lib_isspace sample_lib c \<longrightarrow>
           lib_toupper sample_lib c \<noteq> [] \<and> \<not> lib_isspace sample_lib (hd (lib_toupper sample_lib c)) \<and>
           \<not> lib_isspace sample_lib (last (lib_toupper sample_lib c))"
    by (auto simp: sample_lib_def)
  have 2: "\<forall>c. \<forall>u\<in>set (lib_toupper sample_lib c). lib_toupper sample_lib u = [u]"
    by (auto simp: sample_lib_def split: if_splits)
  have 3: "\<not> lib_isspace sample_lib 42 \<and> lib_toupper sample_lib 42 = [42]"
    by (simp add: sample_lib_def)
  have 4: "\<forall>c. 42 \<in> set (lib_toupper sample_lib c) \<longrightarrow> c = 42"
    by (auto simp: sample_lib_def split: if_splits)
  from 1 2 3 4 show ?thesis unfolding lib_ok_def by blast
qed

text \<open>
  C1 (as amended). Let the character tables be as \<open>lib_ok\<close> says, the frame that was
  read be rectangular, and \<open>load_data\<close> return a frame. Its column names are the
  normalised names of the file and none of them contains an asterisk. Every value of
  a column named \<open>grupo\<close>, \<open>producto\<close> or \<open>mercado\<close> is a text: the cell of a row of the
  file, made a string, stripped and uppercased. It has no surrounding whitespace, and
  no character that \<open>upper\<close> would change. Its asterisks are those of the cell it
  comes from: the values keep their asterisks.
\<close>

theorem load_data_text_normalization:
  assumes "lib_ok py" and "wf_frame f" and "load_data py (Some f) = Inr (Some g)"
    and "col \<in> set text_columns" and "k < length (columns g)" and "columns g ! k = col"
    and "r \<in> set (rows g)"
  shows "columns g = map (normalize_column py) (columns f) \<and>
         (\<forall>name\<in>set (columns g). 42 \<notin> set name) \<and>
         (\<exists>r0\<in>set (rows f). \<exists>v.
            cell_at r k = Text v \<and>
            v = upper py (strip py (astype_str py (cell_at r0 k))) \<and>
            trimmed py v \<and> (\<forall>ch\<in>set v. lib_toupper py ch = [ch]) \<and>
            stars v = stars (astype_str py (cell_at r0 k)))"
proof -
  define C where "C = map (normalize_column py) (columns f)"
  note L = load_data_Inr[OF assms(3) C_def]
  have cg: "columns g = C" by (rule L(5))
  have ns: "\<forall>name\<in>set (columns g). 42 \<notin> set name"
    unfolding cg C_def by (auto simp: normalize_column_no_star)
  have nd: "\<not> duplicated col C" using assms(4) L(1,2,3) by (auto simp: text_columns_def)
  have "set (rows g) \<subseteq> set (map (load_row py C) (rows f))" unfolding L(6) by auto
  with assms(7) obtain r0 where r0: "r0 \<in> set (rows f)" "r = load_row py C r0" by auto
  have len: "length r0 = length C" using assms(2) r0(1) by (simp add: wf_frame_def list_all_iff C_def)
  have k: "k < length C" "C ! k = col" using assms(5,6) cg by simp_all
  let ?t = "astype_str py (cell_at r0 k)"
  let ?v = "upper py (strip py ?t)"
  have c: "cell_at r k = Text ?v"
    unfolding r0(2) cell_at_load_row_text[OF assms(4) nd k len] by (simp add: normalize_text_def)
  have t: "trimmed py ?v" using assms(1) strip_trimmed by (rule upper_trimmed)
  have u: "\<forall>ch\<in>set ?v. lib_toupper py ch = [ch]" using upper_fixed[OF assms(1)] by blast
  have s: "stars ?v = stars ?t" by (simp add: stars_upper[OF assms(1)] stars_strip[OF assms(1)])
  from r0(1) c t u s have "\<exists>r0\<in>set (rows f). \<exists>v.
            cell_at r k = Text v \<and>
            v = upper py (strip py (astype_str py (cell_at r0 k))) \<and>
            trimmed py v \<and> (\<forall>ch\<in>set v. lib_toupper py ch = [ch]) \<and>
            stars v = stars (astype_str py (cell_at r0 k))"
    by blast
  with cg ns show ?thesis unfolding C_def by blast
qed

text \<open>
  The example file: the market of its first row, a no-break space, \<open>Bogot\<close>, a-acute
  and a blank, is loaded as \<open>BOGOT\<close> and A-acute (193).
\<close>

theorem load_data_text_normalization_witness:
  "load_data sample_lib (Some raw_example) = Inr (Some loaded_example) \<and>
   (\<exists>r0\<in>set (rows raw_example). \<exists>v.
      cell_at (rows loaded_example ! 0) 2 = Text v \<and>
      v = upper sample_lib (strip sample_lib (astype_str sample_lib (cell_at r0 2))) \<and>
      trimmed sample_lib v \<and> (\<forall>ch\<in>set v. lib_toupper sample_lib ch = [ch]) \<and>
      stars v = stars (astype_str sample_lib (cell_at r0 2))) \<and>
   cell_at (rows loaded_example ! 0) 2 = Text (ustr ''BOGOT'' @ [193])"
proof -
  have l: "load_data sample_lib (Some raw_example) = Inr (Some loaded_example)" by code_simp
  have w: "wf_frame raw_example" by code_simp
  have c: "ustr ''mercado'' \<in> set text_columns" by (simp add: text_columns_def)
  have k: "2 < length (columns loaded_example)" by code_simp
  have n: "columns loaded_example ! 2 = ustr ''mercado''" by code_simp
  have r: "rows loaded_example ! 0 \<in> set (rows loaded_example)" by code_simp
  have v: "cell_at (rows loaded_example ! 0) 2 = Text (ustr ''BOGOT'' @ [193])" by code_simp
  from load_data_text_normalization[OF lib_ok_sample w l c k n r] l v show ?thesis by blast
qed

text \<open>
  C1 as stated fails twice on the example file. The product \<open>Arroz*\<close> is loaded as
  \<open>ARROZ*\<close>, which contains an asterisk: line 45 has no \<open>replace\<close>. The product of
  the fourth row keeps the kra (312), a lowercase letter that has no uppercase
  form.
\<close>

theorem load_data_keeps_asterisk:
  "load_data sample_lib (Some raw_example) = Inr (Some loaded_example) \<and>
   cell_at (rows raw_example ! 0) 1 = Text (ustr ''Arroz*'') \<and>
   cell_at (rows loaded_example ! 0) 1 = Text (ustr ''ARROZ*'') \<and>
   42 \<in> set (ustr ''ARROZ*'') \<and>
   cell_at (rows loaded_example ! 1) 1 = Text (ustr ''K'' @ [312]) \<and>
   lib_islower sample_lib 312"
  by code_simp

subsection \<open>Row admission\<close>




section \<open>Properties of the indicators\<close>

lemma primer_fecha_Min:
  assumes "s \<noteq> []"
  shows "primer_fecha s = Some (Min (set (map fecha s)))"
proof (cases s)
  case Nil with assms show ?thesis by simp
next
  case (Cons a list)
  have "Min (set (fecha a # map fecha list)) = fold min (map fecha list) (fecha a)"
    by (rule Min.set_eq_fold)
  then show ?thesis using Cons by (simp add: primer_fecha_def)
qed

lemma ultima_fecha_Max:
  assumes "s \<noteq> []"
  shows "ultima_fecha s = Some (Max (set (map fecha s)))"
proof (cases s)
  case Nil with assms show ?thesis by simp
next
  case (Cons a list)
  have "Max (set (fecha a # map fecha list)) = fold max (map fecha list) (fecha a)"
    by (rule Max.set_eq_fold)
  then show ?thesis using Cons by (simp add: ultima_fecha_def)
qed

lemma primer_fecha_mem: "s \<noteq> [] \<Longrightarrow> \<exists>ob\<in>set s. primer_fecha s = Some (fecha ob)"
proof -
  assume n: "s \<noteq> []"
  then have "Min (set (map fecha s)) \<in> set (map fecha s)" by (intro Min_in) simp_all
  then show ?thesis using primer_fecha_Min[OF n] by auto
qed

lemma ultima_fecha_mem: "s \<noteq> [] \<Longrightarrow> \<exists>ob\<in>set s. ultima_fecha s = Some (fecha ob)"
proof -
  assume n: "s \<noteq> []"
  then have "Max (set (map fecha s)) \<in> set (map fecha s)" by (intro Max_in) simp_all
  then show ?thesis using ultima_fecha_Max[OF n] by auto
qed

lemma mean_Num: "xs \<noteq> [] \<Longrightarrow> mean xs = Num (sum_list xs / real (length xs))"
  by (simp add: mean_def)

lemma filter_mem_nonempty: "x \<in> set xs \<Longrightarrow> P x \<Longrightarrow> filter P xs \<noteq> []"
  by (auto simp: filter_empty_conv)

lemma precio_inicial_Num:
  assumes "s \<noteq> []"
  shows "precio_inicial s =
     Num (sum_list (map precio_promedio_por_kilogramo (filter (\<lambda>ob. fecha ob = Min (set (map fecha s))) s))
          / real (length (filter (\<lambda>ob. fecha ob = Min (set (map fecha s))) s)))"
proof -
  let ?P = "\<lambda>ob. fecha ob = Min (set (map fecha s))"
  from primer_fecha_mem[OF assms] obtain ob where "ob \<in> set s" "primer_fecha s = Some (fecha ob)" by blast
  then have "?P ob" using primer_fecha_Min[OF assms] by simp
  with \<open>ob \<in> set s\<close> have "filter ?P s \<noteq> []" by (rule filter_mem_nonempty)
  then show ?thesis
    by (simp add: precio_inicial_def primer_fecha_Min[OF assms] mean_Num)
qed

lemma precio_final_Num:
  assumes "s \<noteq> []"
  shows "precio_final s =
     Num (sum_list (map precio_promedio_por_kilogramo (filter (\<lambda>ob. fecha ob = Max (set (map fecha s))) s))
          / real (length (filter (\<lambda>ob. fecha ob = Max (set (map fecha s))) s)))"
proof -
  let ?P = "\<lambda>ob. fecha ob = Max (set (map fecha s))"
  from ultima_fecha_mem[OF assms] obtain ob where "ob \<in> set s" "ultima_fecha s = Some (fecha ob)" by blast
  then have "?P ob" using ultima_fecha_Max[OF assms] by simp
  with \<open>ob \<in> set s\<close> have "filter ?P s \<noteq> []" by (rule filter_mem_nonempty)
  then show ?thesis
    by (simp add: precio_final_def ultima_fecha_Max[OF assms] mean_Num)
qed

lemma sum_list_filter_mset:
  assumes "mset s = mset v"
  shows "sum_list (map (f :: 'a \<Rightarrow> real) (filter P s)) = sum_list (map f (filter P v))"
proof -
  have "mset (map f (filter P s)) = mset (map f (filter P v))"
    using assms by (metis mset_filter mset_map)
  then show ?thesis by (metis sum_mset_sum_list)
qed

lemma length_filter_mset:
  assumes "mset s = mset v"
  shows "length (filter P s) = length (filter P v)"
proof -
  have "mset (filter P s) = mset (filter P v)" using assms by (metis mset_filter)
  then show ?thesis by (metis size_mset)
qed

lemma set_map_mset: "mset s = mset v \<Longrightarrow> set (map f s) = set (map f v)"
  by (metis mset_map set_mset_mset)

text \<open>
  C4. For a non-empty view and any frame \<open>s\<close> that \<open>sort_values("fecha")\<close> may make of
  it, the initial price is the arithmetic mean of the prices of the observations of
  the view at its minimum date, the final price the mean at its maximum date, and
  the period average the mean of all prices of the view.
\<close>

theorem indicators_are_means:
  assumes "view \<noteq> []" and "sort_values_fecha view s"
  shows "precio_inicial s =
           Num (sum_list (map precio_promedio_por_kilogramo
                   (filter (\<lambda>ob. fecha ob = Min (set (map fecha view))) view))
                / real (length (filter (\<lambda>ob. fecha ob = Min (set (map fecha view))) view))) \<and>
         precio_final s =
           Num (sum_list (map precio_promedio_por_kilogramo
                   (filter (\<lambda>ob. fecha ob = Max (set (map fecha view))) view))
                / real (length (filter (\<lambda>ob. fecha ob = Max (set (map fecha view))) view))) \<and>
         precio_prom_periodo s =
           Num (sum_list (map precio_promedio_por_kilogramo view) / real (length view))"
proof -
  from assms(2) have m: "mset s = mset view" by (simp add: sort_values_fecha_def)
  then have n: "s \<noteq> []" using assms(1) by auto
  have d: "set (map fecha s) = set (map fecha view)" using m by (rule set_map_mset)
  have l: "length s = length view" using m by (metis size_mset)
  have t: "sum_list (map precio_promedio_por_kilogramo s) = sum_list (map precio_promedio_por_kilogramo view)"
    using sum_list_filter_mset[OF m, of precio_promedio_por_kilogramo "\<lambda>_. True"] by simp
  have a: "precio_inicial s = Num (sum_list (map precio_promedio_por_kilogramo
                   (filter (\<lambda>ob. fecha ob = Min (set (map fecha view))) view))
                / real (length (filter (\<lambda>ob. fecha ob = Min (set (map fecha view))) view)))"
    using precio_inicial_Num[OF n] by (simp only: d sum_list_filter_mset[OF m] length_filter_mset[OF m])
  have b: "precio_final s = Num (sum_list (map precio_promedio_por_kilogramo
                   (filter (\<lambda>ob. fecha ob = Max (set (map fecha view))) view))
                / real (length (filter (\<lambda>ob. fecha ob = Max (set (map fecha view))) view)))"
    using precio_final_Num[OF n] by (simp only: d sum_list_filter_mset[OF m] length_filter_mset[OF m])
  have c: "precio_prom_periodo s = Num (sum_list (map precio_promedio_por_kilogramo view) / real (length view))"
    using n by (simp add: precio_prom_periodo_def mean_Num t l)
  from a b c show ?thesis by simp
qed

text \<open>
  The scenario of the spec: the filter with no market selected keeps the three
  observations; the initial price is the mean of 1000 and 2000, the final price is
  1500, and the variation is 0.
\<close>

theorem indicators_are_means_witness:
  "filtered_view rice_dataset 20230101 20230201 (Some ''RICE'') [] = Some rice_dataset \<and>
   sort_values_fecha rice_dataset rice_dataset \<and>
   precio_inicial rice_dataset = Num ((1000 + 2000) / 2) \<and>
   precio_final rice_dataset = Num (1500 / 1) \<and>
   precio_prom_periodo rice_dataset = Num ((1000 + 2000 + 1500) / 3) \<and>
   variacion_pct rice_dataset = Some (Num 0)"
proof -
  have n: "rice_dataset \<noteq> []" by code_simp
  have s: "sort_values_fecha rice_dataset rice_dataset"
    unfolding sort_values_fecha_def by code_simp
  have v: "filtered_view rice_dataset 20230101 20230201 (Some ''RICE'') [] = Some rice_dataset"
    by code_simp
  have mn: "Min (set (map fecha rice_dataset)) = 20230101" by code_simp
  have mx: "Max (set (map fecha rice_dataset)) = 20230201" by code_simp
  have f1: "filter (\<lambda>ob. fecha ob = 20230101) rice_dataset =
      [obs 20230101 ''A'' ''RICE'' 1000, obs 20230101 ''B'' ''RICE'' 2000]" by code_simp
  have f2: "filter (\<lambda>ob. fecha ob = 20230201) rice_dataset = [obs 20230201 ''A'' ''RICE'' 1500]"
    by code_simp
  have p: "map precio_promedio_por_kilogramo rice_dataset = [1000, 2000, 1500]" by code_simp
  have vp: "variacion_pct rice_dataset = Some (Num 0)" by code_simp
  have l: "length rice_dataset = 3" by code_simp
  from indicators_are_means[OF n s] show ?thesis
    unfolding mn mx f1 f2 p l using s v vp by (simp add: obs_def)
qed

section \<open>Properties of the variation\<close>

lemmas float_eval = gt_zero_def negative_def fneg_def fadd_def fsub_def fmul_def fdiv_def
  round_overflow_def mean_left_def variacion_def variacion_pct64_def precio_inicial64_def
  precio_final64_def primer_fecha64_def ultima_fecha64_def obs64_def

text \<open>
  On finite prices and without rounding, \<open>variacion_pct\<close> is \<open>variacion\<close>.
\<close>

lemma variacion_exact:
  "variacion Fin (to64 (precio_final s)) (to64 (precio_inicial s)) = map_option to64 (variacion_pct s)"
  by (cases "precio_inicial s"; cases "precio_final s")
     (simp_all add: variacion_def variacion_pct_def to64_def gt_zero_def fdiv_def fsub_def
        fadd_def fneg_def fmul_def)

text \<open>
  The initial price is not negative when no price is and the mean of numbers that
  are not negative is not negative.
\<close>

lemma precio_inicial64_not_negative:
  assumes "\<forall>xs. list_all (\<lambda>x. \<not> negative x) xs \<longrightarrow> \<not> negative (mean64 xs)"
    and "\<forall>ob\<in>set s. \<not> negative (precio_promedio_por_kilogramo ob)"
  shows "\<not> negative (precio_inicial64 mean64 s)"
  using assms by (simp add: precio_inicial64_def list_all_iff)

text \<open>
  C3. On \<open>float64\<close> values, for every rounding and every mean: when the initial
  price is not negative (the prices of the data model are not), \<open>variacion_pct64\<close> is
  \<open>None\<close> exactly when the initial price is zero or NaN, and otherwise it is
  \<open>(final / initial - 1) * 100\<close> in float arithmetic. With the initial price zero the
  result is \<open>None\<close>, not an infinity and not NaN.
\<close>

theorem variacion_pct_null:
  assumes "\<not> negative (precio_inicial64 mean64 s)"
  shows "variacion_pct64 rnd mean64 s =
           (if precio_inicial64 mean64 s = Fin 0 \<or> precio_inicial64 mean64 s = FNaN then None
            else Some (fmul rnd
                         (fsub rnd (fdiv rnd (precio_final64 mean64 s) (precio_inicial64 mean64 s))
                            (Fin 1))
                         (Fin 100)))"
proof -
  have "gt_zero a \<longleftrightarrow> \<not> (a = Fin 0 \<or> a = FNaN)" if "\<not> negative a" for a
    using that by (cases a) (auto simp: gt_zero_def negative_def)
  from this[OF assms] show ?thesis by (simp add: variacion_pct64_def variacion_def)
qed

text \<open>
  The scenario gives the variation 0; a view whose initial price is zero gives
  \<open>None\<close>.
\<close>

theorem variacion_pct_null_witness:
  "variacion_pct64 round_overflow mean_left rice64 = Some (Fin 0) \<and>
   precio_inicial64 mean_left zero_price_view = Fin 0 \<and>
   variacion_pct64 round_overflow mean_left zero_price_view = None"
proof -
  have a: "\<not> negative (precio_inicial64 mean_left rice64)" by (simp add: float_eval rice64_def)
  have b: "\<not> negative (precio_inicial64 mean_left zero_price_view)" by (simp add: float_eval zero_price_view_def)
  have i: "precio_inicial64 mean_left rice64 = Fin 1500" by (simp add: float_eval rice64_def)
  have f: "precio_final64 mean_left rice64 = Fin 1500" by (simp add: float_eval rice64_def)
  have z: "precio_inicial64 mean_left zero_price_view = Fin 0" by (simp add: float_eval zero_price_view_def)
  have e: "fmul round_overflow (fsub round_overflow (fdiv round_overflow (Fin 1500) (Fin 1500)) (Fin 1)) (Fin 100) = Fin 0"
    by (simp add: float_eval)
  from variacion_pct_null[OF a, of round_overflow] variacion_pct_null[OF b, of round_overflow]
  show ?thesis unfolding i f z e by simp
qed

lemma primer_fecha64_single:
  assumes "s \<noteq> []" and "\<forall>ob\<in>set s. fecha ob = d"
  shows "primer_fecha64 s = Some d" and "ultima_fecha64 s = Some d"
proof -
  obtain a rest where s: "s = a # rest" using assms(1) by (cases s) auto
  have e: "set (fecha a # map fecha rest) = {d}" using assms(2) s by auto
  have "Min (set (fecha a # map fecha rest)) = fold min (map fecha rest) (fecha a)"
    by (rule Min.set_eq_fold)
  then show "primer_fecha64 s = Some d" unfolding e by (simp add: primer_fecha64_def s)
  have "Max (set (fecha a # map fecha rest)) = fold max (map fecha rest) (fecha a)"
    by (rule Max.set_eq_fold)
  then show "ultima_fecha64 s = Some d" unfolding e by (simp add: ultima_fecha64_def s)
qed

text \<open>
  C8 (as amended). When all observations of a non-empty frame carry the same date,
  the initial and the final price are the same value, for every mean. With a
  rounding that keeps 0 and 1, the variation is 0 when that value is a positive
  finite number, NaN when it is the positive infinity, and \<open>None\<close> otherwise.
\<close>

theorem single_date_view:
  assumes "s \<noteq> []" and "\<forall>ob\<in>set s. fecha ob = d" and "rnd 0 = Fin 0" and "rnd 1 = Fin 1"
  shows "precio_inicial64 mean64 s = precio_final64 mean64 s \<and>
         variacion_pct64 rnd mean64 s =
           (case precio_inicial64 mean64 s of
              Fin x \<Rightarrow> if 0 < x then Some (Fin 0) else None
            | PosInf \<Rightarrow> Some FNaN
            | _ \<Rightarrow> None)"
proof -
  note p = primer_fecha64_single[OF assms(1,2)]
  have e: "precio_inicial64 mean64 s = precio_final64 mean64 s"
    by (simp add: precio_inicial64_def precio_final64_def p)
  have "variacion rnd a a =
          (case a of Fin x \<Rightarrow> if 0 < x then Some (Fin 0) else None | PosInf \<Rightarrow> Some FNaN | _ \<Rightarrow> None)"
    for a
    using assms(3,4)
    by (cases a) (simp_all add: variacion_def gt_zero_def fdiv_def fsub_def fadd_def fneg_def fmul_def)
  then show ?thesis using e by (simp add: variacion_pct64_def)
qed

text \<open>
  Two markets on one day.
\<close>

theorem single_date_view_witness:
  "precio_inicial64 mean_left one_day_view = Fin 1500 \<and>
   precio_final64 mean_left one_day_view = Fin 1500 \<and>
   variacion_pct64 round_overflow mean_left one_day_view = Some (Fin 0)"
proof -
  have n: "one_day_view \<noteq> []" by (simp add: one_day_view_def)
  have d: "\<forall>ob\<in>set one_day_view. fecha ob = 20230101" by (simp add: one_day_view_def obs64_def)
  have r: "round_overflow 0 = Fin 0" "round_overflow 1 = Fin 1" by (simp_all add: round_overflow_def)
  have i: "precio_inicial64 mean_left one_day_view = Fin 1500"
    by (simp add: float_eval one_day_view_def)
  from single_date_view[OF n d r, of mean_left] i show ?thesis by simp
qed

text \<open>
  C8 as stated fails: with an infinite price on the single date both prices are the
  positive infinity and the variation is NaN, which is not \<open>None\<close> and not 0.
\<close>

theorem single_date_view_infinite_price:
  "fecha (infinite_view ! 0) = fecha (infinite_view ! 1) \<and> length infinite_view = 2 \<and>
   precio_inicial64 mean_left infinite_view = PosInf \<and>
   precio_final64 mean_left infinite_view = PosInf \<and>
   variacion_pct64 round_overflow mean_left infinite_view = Some FNaN"
  by (simp add: float_eval infinite_view_def)

section \<open>Properties of the filters\<close>

lemma set_unique: "set (unique xs) = set xs"
  by (simp add: unique_def)

lemma distinct_unique: "distinct (unique xs)"
  by (simp add: unique_def)

lemma sort_unique_sorted_list_of_set:
  "sort (unique xs) = sorted_list_of_set (set xs)"
proof -
  have "sorted (sort (unique xs))" "distinct (sort (unique xs))" "set (sort (unique xs)) = set xs"
    by (simp_all add: distinct_unique set_unique)
  then show ?thesis
    by (metis sorted_list_of_set.idem_if_sorted_distinct)
qed

lemma set_mercados_disponibles: "set (mercados_disponibles d) = mercado ` set d"
  by (simp add: mercados_disponibles_def set_unique)

lemma distinct_mercados_disponibles: "distinct (mercados_disponibles d)"
  by (simp add: mercados_disponibles_def distinct_unique)

lemma sorted_mercados_disponibles: "sorted (mercados_disponibles d)"
  by (simp add: mercados_disponibles_def)

lemma filter_mercados_disponibles:
  "filter_mercados d (mercados_disponibles d) = d"
  by (simp add: filter_mercados_def set_mercados_disponibles)

lemma df_producto_df_periodo:
  "df_producto (df_periodo df a b) p =
     filter (\<lambda>ob. a \<le> fecha ob \<and> fecha ob \<le> b \<and> Some (producto ob) = p) df"
  by (simp add: df_producto_def df_periodo_def conj_commute conj_left_commute)

text \<open>
  C7. With an empty market selection the filter keeps every observation of the
  product within the date range, and that is what the filter gives for the full list
  of available markets; the two selections also agree on whether \<open>main\<close> stops.
\<close>

theorem empty_market_selection_keeps_all:
  "filter_mercados (df_producto (df_periodo df a b) p) [] =
     filter (\<lambda>ob. a \<le> fecha ob \<and> fecha ob \<le> b \<and> Some (producto ob) = p) df \<and>
   filter_mercados (df_producto (df_periodo df a b) p) [] =
     filter_mercados (df_producto (df_periodo df a b) p)
       (mercados_disponibles (df_producto (df_periodo df a b) p)) \<and>
   filtered_view df a b p [] =
     filtered_view df a b p (mercados_disponibles (df_producto (df_periodo df a b) p))"
proof -
  let ?d = "df_producto (df_periodo df a b) p"
  have e: "filter_mercados ?d [] = ?d" by (simp add: filter_mercados_def)
  have f: "filter_mercados ?d (mercados_disponibles ?d) = ?d" by (rule filter_mercados_disponibles)
  show ?thesis
    unfolding filtered_view_def e f by (simp add: df_producto_df_periodo)
qed

text \<open>
  C10. The available markets are the distinct markets of the product's frame in
  ascending order. When there are more than five, the default selection is the first
  five of them, the filter with that selection keeps the observations of those five
  markets only, and some observation is left out; when there are five or fewer, the
  default selection is all of them and the filter keeps the whole frame.
\<close>

theorem mercados_default_first_five:
  "sorted (mercados_disponibles d) \<and> distinct (mercados_disponibles d) \<and>
   set (mercados_disponibles d) = mercado ` set d \<and>
   (5 < length (mercados_disponibles d) \<longrightarrow>
      mercados_default (mercados_disponibles d) = take 5 (mercados_disponibles d) \<and>
      length (mercados_default (mercados_disponibles d)) = 5 \<and>
      filter_mercados d (mercados_default (mercados_disponibles d)) =
        filter (\<lambda>ob. mercado ob \<in> set (take 5 (mercados_disponibles d))) d \<and>
      (\<exists>ob\<in>set d. ob \<notin> set (filter_mercados d (mercados_default (mercados_disponibles d))))) \<and>
   (length (mercados_disponibles d) \<le> 5 \<longrightarrow>
      mercados_default (mercados_disponibles d) = mercados_disponibles d \<and>
      filter_mercados d (mercados_default (mercados_disponibles d)) = d)"
proof -
  let ?md = "mercados_disponibles d"
  have small: "mercados_default ?md = ?md \<and> filter_mercados d (mercados_default ?md) = d"
    if "length ?md \<le> 5"
    using that by (simp add: mercados_default_def filter_mercados_disponibles)
  have big: "mercados_default ?md = take 5 ?md \<and> length (mercados_default ?md) = 5 \<and>
      filter_mercados d (mercados_default ?md) = filter (\<lambda>ob. mercado ob \<in> set (take 5 ?md)) d \<and>
      (\<exists>ob\<in>set d. ob \<notin> set (filter_mercados d (mercados_default ?md)))"
    if l: "5 < length ?md"
  proof -
    have df: "mercados_default ?md = take 5 ?md" using l by (simp add: mercados_default_def)
    have ne: "take 5 ?md \<noteq> []" using l by auto
    have fm: "filter_mercados d (take 5 ?md) = filter (\<lambda>ob. mercado ob \<in> set (take 5 ?md)) d"
      using ne by (simp add: filter_mercados_def)
    have "?md ! 5 \<in> set ?md" using l by simp
    then obtain ob where ob: "ob \<in> set d" "mercado ob = ?md ! 5"
      by (auto simp: set_mercados_disponibles)
    have "?md ! 5 \<notin> set (take 5 ?md)"
    proof
      assume "?md ! 5 \<in> set (take 5 ?md)"
      then obtain i where i: "i < 5" "take 5 ?md ! i = ?md ! 5" using l
        by (auto simp: in_set_conv_nth)
      then have "?md ! i = ?md ! 5" by simp
      then show False using i(1) l distinct_mercados_disponibles[of d]
        by (simp add: nth_eq_iff_index_eq)
    qed
    then have "ob \<notin> set (filter_mercados d (take 5 ?md))" using ob fm by simp
    then show ?thesis using df fm ob(1) l by auto
  qed
  show ?thesis
    using small big sorted_mercados_disponibles[of d] distinct_mercados_disponibles[of d]
      set_mercados_disponibles[of d] by blast
qed

text \<open>
  Six markets: PASTO, the last in the alphabet, is left out by default. Two
  markets: both are selected.
\<close>

theorem mercados_default_first_five_witness:
  "mercados_disponibles six_markets_view =
     [''ARMENIA'', ''BOGOTA'', ''CALI'', ''IBAGUE'', ''NEIVA'', ''PASTO''] \<and>
   mercados_default (mercados_disponibles six_markets_view) =
     [''ARMENIA'', ''BOGOTA'', ''CALI'', ''IBAGUE'', ''NEIVA''] \<and>
   obs 20230101 ''PASTO'' ''RICE'' 1500 \<notin>
     set (filter_mercados six_markets_view (mercados_default (mercados_disponibles six_markets_view))) \<and>
   mercados_default (mercados_disponibles rice_dataset) = [''A'', ''B''] \<and>
   filter_mercados rice_dataset (mercados_default (mercados_disponibles rice_dataset)) = rice_dataset"
proof -
  have a: "mercados_disponibles six_markets_view =
     [''ARMENIA'', ''BOGOTA'', ''CALI'', ''IBAGUE'', ''NEIVA'', ''PASTO'']" by code_simp
  have b: "mercados_disponibles rice_dataset = [''A'', ''B'']" by code_simp
  have c: "obs 20230101 ''PASTO'' ''RICE'' 1500 \<notin>
     set (filter_mercados six_markets_view [''ARMENIA'', ''BOGOTA'', ''CALI'', ''IBAGUE'', ''NEIVA''])"
    by code_simp
  note six = mercados_default_first_five[of six_markets_view, unfolded a]
  note two = mercados_default_first_five[of rice_dataset, unfolded b]
  from six have d1: "mercados_default [''ARMENIA'', ''BOGOTA'', ''CALI'', ''IBAGUE'', ''NEIVA'', ''PASTO''] =
     [''ARMENIA'', ''BOGOTA'', ''CALI'', ''IBAGUE'', ''NEIVA'']" by simp
  from two have d2: "mercados_default [''A'', ''B''] = [''A'', ''B'']" by simp
  from two d2 have d3: "filter_mercados rice_dataset [''A'', ''B''] = rice_dataset"
    by simp
  show ?thesis unfolding a b d1 d2 by (intro conjI refl c d3)
qed

section \<open>Properties of the time series\<close>

lemma map_fst_groupby_mean: "map fst (groupby_mean key s) = sorted_list_of_set (key ` set s)"
  by (simp add: groupby_mean_def comp_def sort_unique_sorted_list_of_set)

lemma groupby_mean_eq:
  "groupby_mean key s = map (\<lambda>k. (k, Num (group_mean key s k))) (sorted_list_of_set (key ` set s))"
proof -
  have "mean (map precio_promedio_por_kilogramo (filter (\<lambda>ob. key ob = k) s)) = Num (group_mean key s k)"
    if "k \<in> key ` set s" for k
  proof -
    from that obtain ob where "ob \<in> set s" "key ob = k" by auto
    then have "filter (\<lambda>ob. key ob = k) s \<noteq> []" by (rule filter_mem_nonempty)
    then show ?thesis by (simp add: mean_Num group_mean_def)
  qed
  then show ?thesis
    by (simp add: groupby_mean_def sort_unique_sorted_list_of_set)
qed

lemma group_mean_mset: "mset s = mset v \<Longrightarrow> group_mean key s k = group_mean key v k"
  by (simp add: group_mean_def sum_list_filter_mset[of s v] length_filter_mset[of s v])

lemma groupby_mean_mset:
  assumes "mset s = mset v"
  shows "groupby_mean key s = groupby_mean key v"
proof -
  have "key ` set s = key ` set v" using set_map_mset[OF assms, of key] by simp
  then show ?thesis by (simp add: groupby_mean_eq group_mean_mset[OF assms])
qed

lemma distinct_groupby_mean: "distinct (map fst (groupby_mean key s))"
  by (simp add: map_fst_groupby_mean)

lemma map_of_tabulate:
  "map_of (map (\<lambda>k. (k, f k)) ks) k = (if k \<in> set ks then Some (f k) else None)"
  by (induction ks) auto

lemma map_of_groupby_mean:
  "map_of (groupby_mean key s) k =
     (if k \<in> key ` set s then Some (Num (group_mean key s k)) else None)"
  by (simp add: groupby_mean_eq map_of_tabulate)

lemma pair_image_iff:
  "(d, m) \<in> (\<lambda>ob. (fecha ob, mercado ob)) ` set v \<longleftrightarrow> (\<exists>ob\<in>set v. fecha ob = d \<and> mercado ob = m)"
  by auto

lemma pivot_serie:
  "pivot (serie v) =
     Inr \<lparr> p_index = sorted_list_of_set (fecha ` set v),
           p_columns = sorted_list_of_set (mercado ` set v),
           p_values =
             map (\<lambda>d. map (\<lambda>m. if \<exists>ob\<in>set v. fecha ob = d \<and> mercado ob = m
                                 then Num (group_mean (\<lambda>ob. (fecha ob, mercado ob)) v (d, m))
                                 else NaN)
                        (sorted_list_of_set (mercado ` set v)))
                 (sorted_list_of_set (fecha ` set v)) \<rparr>"
proof -
  let ?key = "\<lambda>ob. (fecha ob, mercado ob)"
  have d: "distinct (map fst (serie v))" by (simp add: serie_def distinct_groupby_mean)
  have k: "map fst (serie v) = sorted_list_of_set (?key ` set v)"
    by (simp add: serie_def map_fst_groupby_mean)
  have "map (fst \<circ> fst) (serie v) = map fst (map fst (serie v))" by simp
  then have "set (map (fst \<circ> fst) (serie v)) = fst ` ?key ` set v" unfolding k by simp
  then have i: "set (map (fst \<circ> fst) (serie v)) = fecha ` set v" by (simp add: image_image)
  have "map (snd \<circ> fst) (serie v) = map snd (map fst (serie v))" by simp
  then have "set (map (snd \<circ> fst) (serie v)) = snd ` ?key ` set v" unfolding k by simp
  then have c: "set (map (snd \<circ> fst) (serie v)) = mercado ` set v" by (simp add: image_image)
  have m: "(case map_of (serie v) (d, m) of None \<Rightarrow> NaN | Some x \<Rightarrow> x) =
       (if \<exists>ob\<in>set v. fecha ob = d \<and> mercado ob = m then Num (group_mean ?key v (d, m)) else NaN)"
    for d m
    unfolding serie_def map_of_groupby_mean pair_image_iff by simp
  show ?thesis
    unfolding pivot_def Let_def sort_unique_sorted_list_of_set i c m using d by simp
qed

text \<open>
  C9. For a view and any frame \<open>s\<close> that \<open>sort_values("fecha")\<close> may make of it, the
  series has one entry per (date, market) pair of the view, with the arithmetic mean
  of the prices of that pair's observations; \<open>pivot\<close> raises nothing, its rows are the
  dates and its columns the markets of the view, and each cell holds the mean of its
  pair, or NaN (no value, not zero) when the view has no observation of the pair.
\<close>

theorem build_matrix_cells:
  assumes "sort_values_fecha view s"
  shows "serie s =
           map (\<lambda>k. (k, Num (group_mean (\<lambda>ob. (fecha ob, mercado ob)) view k)))
             (sorted_list_of_set ((\<lambda>ob. (fecha ob, mercado ob)) ` set view)) \<and>
         pivot (serie s) =
           Inr \<lparr> p_index = sorted_list_of_set (fecha ` set view),
                 p_columns = sorted_list_of_set (mercado ` set view),
                 p_values =
                   map (\<lambda>d. map (\<lambda>m. if \<exists>ob\<in>set view. fecha ob = d \<and> mercado ob = m
                                       then Num (group_mean (\<lambda>ob. (fecha ob, mercado ob)) view (d, m))
                                       else NaN)
                              (sorted_list_of_set (mercado ` set view)))
                       (sorted_list_of_set (fecha ` set view)) \<rparr>"
proof -
  from assms have m: "mset s = mset view" by (simp add: sort_values_fecha_def)
  have e: "serie s = serie view" unfolding serie_def using m by (rule groupby_mean_mset)
  show ?thesis unfolding e using pivot_serie[of view] by (simp add: serie_def groupby_mean_eq)
qed

text \<open>
  The cell of market A on the second date is NaN, the cell of market B on the first
  date is the price zero.
\<close>

theorem build_matrix_cells_witness:
  "sort_values_fecha gaps_view gaps_sorted \<and>
   serie gaps_sorted =
     [((20230101, ''A''), Num 1500), ((20230101, ''B''), Num 0), ((20230201, ''B''), Num 1500)] \<and>
   pivot (serie gaps_sorted) =
     Inr \<lparr> p_index = [20230101, 20230201], p_columns = [''A'', ''B''],
           p_values = [[Num 1500, Num 0], [NaN, Num 1500]] \<rparr>"
proof -
  have s: "sort_values_fecha gaps_view gaps_sorted"
    unfolding sort_values_fecha_def by code_simp
  have a: "serie gaps_sorted =
     [((20230101, ''A''), Num 1500), ((20230101, ''B''), Num 0), ((20230201, ''B''), Num 1500)]"
    by code_simp
  have p: "pivot [((20230101, ''A''), Num 1500), ((20230101, ''B''), Num 0), ((20230201, ''B''), Num 1500)] =
     Inr \<lparr> p_index = [20230101, 20230201], p_columns = [''A'', ''B''],
           p_values = [[Num 1500, Num 0], [NaN, Num 1500]] \<rparr>"
    by code_simp
  from build_matrix_cells[OF s] s a p show ?thesis by simp
qed

section \<open>Properties of the ranking\<close>

lemma all_Num_map:
  assumes "\<forall>p\<in>set r. \<exists>x. snd p = Num x"
  shows "map snd r = map Num (map (num_or_zero \<circ> snd) r)"
  using assms by (induction r) (auto simp: num_or_zero_def)

lemma descending_values:
  assumes "\<forall>p\<in>set r. \<exists>x. snd p = Num x"
    and "sorted_wrt (\<lambda>a b. ge_nan_last (snd a) (snd b)) r"
  shows "\<exists>vals. map snd r = map Num vals \<and> sorted (rev vals)"
proof -
  let ?vals = "map (num_or_zero \<circ> snd) r"
  have "sorted_wrt (\<lambda>a b. num_or_zero (snd b) \<le> num_or_zero (snd a)) r"
  proof (rule sorted_wrt_mono_rel[OF _ assms(2)])
    fix a b assume "a \<in> set r" "b \<in> set r" "ge_nan_last (snd a) (snd b)"
    moreover from this assms(1) obtain x y where "snd a = Num x" "snd b = Num y" by blast
    ultimately show "num_or_zero (snd b) \<le> num_or_zero (snd a)"
      by (simp add: ge_nan_last_def num_or_zero_def)
  qed
  then have "sorted (rev ?vals)"
    by (simp add: sorted_wrt_rev sorted_wrt_map)
  with all_Num_map[OF assms(1)] show ?thesis by blast
qed

lemma ascending_values:
  assumes "\<forall>p\<in>set r. \<exists>x. snd p = Num x"
    and "sorted_wrt (\<lambda>a b. le_nan_last (snd a) (snd b)) r"
  shows "\<exists>vals. map snd r = map Num vals \<and> sorted vals"
proof -
  let ?vals = "map (num_or_zero \<circ> snd) r"
  have "sorted_wrt (\<lambda>a b. num_or_zero (snd a) \<le> num_or_zero (snd b)) r"
  proof (rule sorted_wrt_mono_rel[OF _ assms(2)])
    fix a b assume "a \<in> set r" "b \<in> set r" "le_nan_last (snd a) (snd b)"
    moreover from this assms(1) obtain x y where "snd a = Num x" "snd b = Num y" by blast
    ultimately show "num_or_zero (snd a) \<le> num_or_zero (snd b)"
      by (simp add: le_nan_last_def num_or_zero_def)
  qed
  then have "sorted ?vals"
    by (simp add: sorted_wrt_map sorted_map)
  with all_Num_map[OF assms(1)] show ?thesis by blast
qed

text \<open>
  A sorted rearrangement always exists: the library sort by \<open>desc_key\<close> or \<open>asc_key\<close>
  is one.
\<close>

lemma sort_values_desc_exists: "sort_values_desc xs (sort_key desc_key xs)"
proof -
  have "sorted (map desc_key (sort_key desc_key xs))" by simp
  then have "sorted_wrt (\<lambda>a b. desc_key a \<le> desc_key b) (sort_key desc_key xs)"
    by (simp add: sorted_map)
  then have "sorted_wrt (\<lambda>a b. ge_nan_last (snd a) (snd b)) (sort_key desc_key xs)"
  proof (rule sorted_wrt_mono_rel[rotated])
    fix a b :: "string \<times> pyfloat" assume "desc_key a \<le> desc_key b"
    then show "ge_nan_last (snd a) (snd b)"
      by (cases "snd a"; cases "snd b") (simp_all add: desc_key_def ge_nan_last_def less_eq_prod_def)
  qed
  then show ?thesis by (simp add: sort_values_desc_def)
qed

lemma sort_values_asc_exists: "sort_values_asc xs (sort_key asc_key xs)"
proof -
  have "sorted (map asc_key (sort_key asc_key xs))" by simp
  then have "sorted_wrt (\<lambda>a b. asc_key a \<le> asc_key b) (sort_key asc_key xs)"
    by (simp add: sorted_map)
  then have "sorted_wrt (\<lambda>a b. le_nan_last (snd a) (snd b)) (sort_key asc_key xs)"
  proof (rule sorted_wrt_mono_rel[rotated])
    fix a b :: "string \<times> pyfloat" assume "asc_key a \<le> asc_key b"
    then show "le_nan_last (snd a) (snd b)"
      by (cases "snd a"; cases "snd b") (simp_all add: asc_key_def le_nan_last_def less_eq_prod_def)
  qed
  then show ?thesis by (simp add: sort_values_asc_def)
qed

lemma length_groupby_mean: "length (groupby_mean key s) = card (key ` set s)"
proof -
  have "length (groupby_mean key s) = length (map fst (groupby_mean key s))" by simp
  also have "\<dots> = card (key ` set s)" unfolding map_fst_groupby_mean by simp
  finally show ?thesis .
qed

lemma groupby_mean_values: "\<forall>p\<in>set (groupby_mean key s). \<exists>x. snd p = Num x"
  by (auto simp: groupby_mean_eq)

lemma top_n_min: "top_n r = min 10 (length r)"
  by (simp add: top_n_def)

lemma tail_drop: "tail n r = drop (length r - n) r"
  by (simp add: tail_def)

lemma ranking_facts:
  assumes m: "mset s = mset view" and r: "ranking_mercados s r" and b: "mas_baratos r b"
  shows ranking_entries:
      "mset r = mset (map (\<lambda>m. (m, Num (group_mean mercado view m)))
                        (sorted_list_of_set (mercado ` set view)))"
    and ranking_descending: "\<exists>vals. map snd r = map Num vals \<and> sorted (rev vals)"
    and ranking_length: "length r = card (mercado ` set view)"
    and bottom_entries: "mset b = mset (drop (length r - top_n r) r)"
    and bottom_ascending: "\<exists>vals. map snd b = map Num vals \<and> sorted vals"
    and bottom_length: "length b = top_n r"
    and bottom_subset: "set b \<subseteq> set r"
proof -
  have g: "groupby_mean mercado s = groupby_mean mercado view" using m by (rule groupby_mean_mset)
  from r have mr: "mset r = mset (groupby_mean mercado view)"
    and sr: "sorted_wrt (\<lambda>a b. ge_nan_last (snd a) (snd b)) r"
    by (simp_all add: ranking_mercados_def sort_values_desc_def g)
  show "mset r = mset (map (\<lambda>m. (m, Num (group_mean mercado view m)))
                        (sorted_list_of_set (mercado ` set view)))"
    using mr by (simp only: groupby_mean_eq)
  have "set r = set (groupby_mean mercado view)" using mr by (metis set_mset_mset)
  then have nr: "\<forall>p\<in>set r. \<exists>x. snd p = Num x" using groupby_mean_values[of mercado view] by simp
  show "\<exists>vals. map snd r = map Num vals \<and> sorted (rev vals)"
    using nr sr by (rule descending_values)
  show "length r = card (mercado ` set view)"
    using mr length_groupby_mean[of mercado view] by (metis size_mset)
  from b have mb: "mset b = mset (tail (top_n r) r)"
    and sb: "sorted_wrt (\<lambda>a b. le_nan_last (snd a) (snd b)) b"
    by (simp_all add: mas_baratos_def sort_values_asc_def)
  show eb: "mset b = mset (drop (length r - top_n r) r)" using mb by (simp only: tail_drop)
  have sub: "set b = set (drop (length r - top_n r) r)" using eb by (metis set_mset_mset)
  then show "set b \<subseteq> set r" using set_drop_subset[of "length r - top_n r" r] by simp
  then have nb: "\<forall>p\<in>set b. \<exists>x. snd p = Num x" using nr by blast
  show "\<exists>vals. map snd b = map Num vals \<and> sorted vals" using nb sb by (rule ascending_values)
  have "length b = length (drop (length r - top_n r) r)" using eb by (metis size_mset)
  then show "length b = top_n r" by (simp add: top_n_def)
qed

text \<open>
  C6. For a non-empty view and any frame \<open>s\<close> that \<open>sort_values("fecha")\<close> may make of
  it, a ranking and a bottom chart exist (nothing is raised), and for every ranking
  \<open>r\<close> and bottom chart \<open>b\<close> that the two sorts may return: \<open>r\<close> holds exactly the pairs
  (market, mean price of the market over the view), its values are numbers in
  descending order, \<open>top_n\<close> is the minimum of 10 and the number of distinct markets
  and is positive, \<open>mas_caros\<close> is the first \<open>top_n\<close> entries of \<open>r\<close>, \<open>b\<close> is the last
  \<open>top_n\<close> entries of \<open>r\<close> in ascending order, both have \<open>top_n\<close> entries and only
  entries of \<open>r\<close>, and with ten markets or fewer both are the whole ranking.
\<close>

theorem ranking_top_and_bottom:
  assumes "view \<noteq> []" and "sort_values_fecha view s"
  shows "(\<exists>r b. ranking_mercados s r \<and> mas_baratos r b) \<and>
         (\<forall>r b. ranking_mercados s r \<and> mas_baratos r b \<longrightarrow>
            mset r = mset (map (\<lambda>m. (m, Num (group_mean mercado view m)))
                             (sorted_list_of_set (mercado ` set view))) \<and>
            (\<exists>vals. map snd r = map Num vals \<and> sorted (rev vals)) \<and>
            top_n r = min 10 (card (mercado ` set view)) \<and> 0 < top_n r \<and>
            mas_caros r = take (top_n r) r \<and>
            mset b = mset (drop (length r - top_n r) r) \<and>
            (\<exists>vals. map snd b = map Num vals \<and> sorted vals) \<and>
            length (mas_caros r) = top_n r \<and> length b = top_n r \<and>
            set (mas_caros r) \<subseteq> set r \<and> set b \<subseteq> set r \<and>
            (card (mercado ` set view) \<le> 10 \<longrightarrow> mas_caros r = r \<and> mset b = mset r))"
proof -
  from assms(2) have m: "mset s = mset view" by (simp add: sort_values_fecha_def)
  have ex: "\<exists>r b. ranking_mercados s r \<and> mas_baratos r b"
  proof -
    let ?r = "sort_key desc_key (groupby_mean mercado s)"
    have "ranking_mercados s ?r" unfolding ranking_mercados_def by (rule sort_values_desc_exists)
    moreover have "mas_baratos ?r (sort_key asc_key (tail (top_n ?r) ?r))"
      unfolding mas_baratos_def by (rule sort_values_asc_exists)
    ultimately show ?thesis by blast
  qed
  have all: "mset r = mset (map (\<lambda>m. (m, Num (group_mean mercado view m)))
                             (sorted_list_of_set (mercado ` set view))) \<and>
            (\<exists>vals. map snd r = map Num vals \<and> sorted (rev vals)) \<and>
            top_n r = min 10 (card (mercado ` set view)) \<and> 0 < top_n r \<and>
            mas_caros r = take (top_n r) r \<and>
            mset b = mset (drop (length r - top_n r) r) \<and>
            (\<exists>vals. map snd b = map Num vals \<and> sorted vals) \<and>
            length (mas_caros r) = top_n r \<and> length b = top_n r \<and>
            set (mas_caros r) \<subseteq> set r \<and> set b \<subseteq> set r \<and>
            (card (mercado ` set view) \<le> 10 \<longrightarrow> mas_caros r = r \<and> mset b = mset r)"
    if rb: "ranking_mercados s r \<and> mas_baratos r b" for r b
  proof -
    from rb have r: "ranking_mercados s r" and b: "mas_baratos r b" by simp_all
    note f = ranking_facts[OF m r b]
    have l: "length r = card (mercado ` set view)" by (rule f(3))
    have "mercado ` set view \<noteq> {}" using assms(1) by simp
    then have pos: "0 < card (mercado ` set view)" by (simp add: card_gt_0_iff)
    have t: "top_n r = min 10 (card (mercado ` set view))" by (simp add: top_n_min l)
    have tp: "0 < top_n r" using t pos by simp
    have c: "mas_caros r = take (top_n r) r" by (simp add: mas_caros_def head_def)
    have lc: "length (mas_caros r) = top_n r" unfolding c by (simp add: top_n_def)
    have sc: "set (mas_caros r) \<subseteq> set r" unfolding c by (rule set_take_subset)
    have small: "mas_caros r = r \<and> mset b = mset r" if "card (mercado ` set view) \<le> 10"
    proof -
      have "top_n r = length r" using that l by (simp add: top_n_def)
      then show ?thesis using c f(4) by simp
    qed
    from f(1) f(2) t tp c f(4) f(5) lc f(6) sc f(7) small show ?thesis by blast
  qed
  from ex all show ?thesis by blast
qed

text \<open>
  The scenario of the spec: B (2000) is ranked above A (1250); with two markets,
  the top chart is the whole ranking and the bottom chart is its reverse.
\<close>

theorem ranking_top_and_bottom_witness:
  "sort_values_fecha rice_dataset rice_dataset \<and>
   ranking_mercados rice_dataset [(''B'', Num 2000), (''A'', Num 1250)] \<and>
   mas_baratos [(''B'', Num 2000), (''A'', Num 1250)] [(''A'', Num 1250), (''B'', Num 2000)] \<and>
   top_n [(''B'', Num 2000), (''A'', Num 1250)] = 2 \<and>
   mas_caros [(''B'', Num 2000), (''A'', Num 1250)] = [(''B'', Num 2000), (''A'', Num 1250)]"
proof -
  have n: "rice_dataset \<noteq> []" by code_simp
  have s: "sort_values_fecha rice_dataset rice_dataset"
    unfolding sort_values_fecha_def by code_simp
  have r: "ranking_mercados rice_dataset [(''B'', Num 2000), (''A'', Num 1250)]"
    unfolding ranking_mercados_def sort_values_desc_def by code_simp
  have b: "mas_baratos [(''B'', Num 2000), (''A'', Num 1250)] [(''A'', Num 1250), (''B'', Num 2000)]"
    unfolding mas_baratos_def sort_values_asc_def by code_simp
  have c: "card (mercado ` set rice_dataset) = 2" by code_simp
  from ranking_top_and_bottom[OF n s] r b
  have "top_n [(''B'', Num 2000), (''A'', Num 1250)] = min 10 (card (mercado ` set rice_dataset)) \<and>
        (card (mercado ` set rice_dataset) \<le> 10 \<longrightarrow>
           mas_caros [(''B'', Num 2000), (''A'', Num 1250)] = [(''B'', Num 2000), (''A'', Num 1250)])"
    by blast
  then show ?thesis using s r b c by simp
qed

end
